theory Spec2Isabelle
  imports Complex_Main "HOL-Library.Word"
begin

section \<open>Single-precision values\<close>

text \<open>
  The library computes on C \<^verbatim>\<open>float\<close>. A value is a finite number, one of the two
  infinities, or NaN. The special values follow IEEE 754: an invalid operation
  (\<open>0/0\<close>, \<open>\<infinity> - \<infinity>\<close>, \<open>0 \<cdot> \<infinity>\<close>, the square root of a negative number) gives
  NaN, NaN propagates through arithmetic, every ordered comparison with NaN is
  false, a non-zero finite number divided by zero is an infinity, and a finite
  result whose magnitude exceeds the largest finite single-precision number
  overflows to an infinity.

  Every operation is taken to be evaluated in single precision, so an
  intermediate result overflows where a stored one would. Two idealisations are
  made, and every theorem below is a theorem of this idealised arithmetic: finite
  results within range are exact (rounding to 24 significant bits is not
  modelled, and a decimal literal such as \<^verbatim>\<open>0.3f\<close> denotes the real number 0.3),
  and zero carries no sign (a division by zero takes its sign from the
  numerator). The concrete runs below are on values for which rounding changes
  neither the outcome of a comparison nor the appearance of a special value.
\<close>

datatype flt = Fin real | PInf | NInf | NaN

definition FLT_MAX :: real where
  "FLT_MAX = 340282346638528859811704183484516925440"

definition ovf :: "real \<Rightarrow> flt" where
  "ovf r = (if FLT_MAX < r then PInf else if r < - FLT_MAX then NInf else Fin r)"

fun is_nan :: "flt \<Rightarrow> bool" where
  "is_nan NaN = True"
| "is_nan _ = False"

fun is_inf :: "flt \<Rightarrow> bool" where
  "is_inf PInf = True"
| "is_inf NInf = True"
| "is_inf _ = False"

fun is_finite :: "flt \<Rightarrow> bool" where
  "is_finite (Fin r) = (\<bar>r\<bar> \<le> FLT_MAX)"
| "is_finite _ = False"

fun fneg :: "flt \<Rightarrow> flt" where
  "fneg (Fin a) = Fin (- a)"
| "fneg PInf = NInf"
| "fneg NInf = PInf"
| "fneg NaN = NaN"

fun fadd :: "flt \<Rightarrow> flt \<Rightarrow> flt" where
  "fadd NaN _ = NaN"
| "fadd _ NaN = NaN"
| "fadd PInf NInf = NaN"
| "fadd NInf PInf = NaN"
| "fadd PInf _ = PInf"
| "fadd _ PInf = PInf"
| "fadd NInf _ = NInf"
| "fadd _ NInf = NInf"
| "fadd (Fin a) (Fin b) = ovf (a + b)"

definition fsub :: "flt \<Rightarrow> flt \<Rightarrow> flt" where
  "fsub a b = fadd a (fneg b)"

text \<open>The infinity with the sign of \<open>r\<close>; the product of an infinity and zero is NaN.\<close>

definition inf_of_sign :: "real \<Rightarrow> flt" where
  "inf_of_sign r = (if r = 0 then NaN else if 0 < r then PInf else NInf)"

fun fmul :: "flt \<Rightarrow> flt \<Rightarrow> flt" where
  "fmul NaN _ = NaN"
| "fmul _ NaN = NaN"
| "fmul PInf PInf = PInf"
| "fmul PInf NInf = NInf"
| "fmul NInf PInf = NInf"
| "fmul NInf NInf = PInf"
| "fmul PInf (Fin b) = inf_of_sign b"
| "fmul (Fin a) PInf = inf_of_sign a"
| "fmul NInf (Fin b) = inf_of_sign (- b)"
| "fmul (Fin a) NInf = inf_of_sign (- a)"
| "fmul (Fin a) (Fin b) = ovf (a * b)"

text \<open>
  Division. HOL's \<open>a / 0\<close> is \<open>0\<close>; the hardware's is NaN for \<open>0/0\<close> and an
  infinity otherwise, so the zero denominator is a case of its own.
\<close>

fun fdiv :: "flt \<Rightarrow> flt \<Rightarrow> flt" where
  "fdiv NaN _ = NaN"
| "fdiv _ NaN = NaN"
| "fdiv PInf PInf = NaN"
| "fdiv PInf NInf = NaN"
| "fdiv NInf PInf = NaN"
| "fdiv NInf NInf = NaN"
| "fdiv (Fin a) PInf = Fin 0"
| "fdiv (Fin a) NInf = Fin 0"
| "fdiv PInf (Fin b) = (if 0 \<le> b then PInf else NInf)"
| "fdiv NInf (Fin b) = (if 0 \<le> b then NInf else PInf)"
| "fdiv (Fin a) (Fin b) = (if b = 0 then inf_of_sign a else ovf (a / b))"

text \<open>The ordered comparisons \<^verbatim>\<open><\<close> and \<^verbatim>\<open><=\<close>; \<^verbatim>\<open>a > b\<close> is \<open>flt_lt b a\<close>.\<close>

fun flt_lt :: "flt \<Rightarrow> flt \<Rightarrow> bool" where
  "flt_lt NaN _ = False"
| "flt_lt _ NaN = False"
| "flt_lt (Fin a) (Fin b) = (a < b)"
| "flt_lt NInf NInf = False"
| "flt_lt NInf _ = True"
| "flt_lt _ NInf = False"
| "flt_lt PInf _ = False"
| "flt_lt _ PInf = True"

fun flt_le :: "flt \<Rightarrow> flt \<Rightarrow> bool" where
  "flt_le NaN _ = False"
| "flt_le _ NaN = False"
| "flt_le (Fin a) (Fin b) = (a \<le> b)"
| "flt_le NInf _ = True"
| "flt_le _ NInf = False"
| "flt_le _ PInf = True"
| "flt_le PInf _ = False"

fun sqrtf :: "flt \<Rightarrow> flt" where
  "sqrtf NaN = NaN"
| "sqrtf PInf = PInf"
| "sqrtf NInf = NaN"
| "sqrtf (Fin a) = (if a < 0 then NaN else Fin (sqrt a))"

fun expf :: "flt \<Rightarrow> flt" where
  "expf NaN = NaN"
| "expf PInf = PInf"
| "expf NInf = Fin 0"
| "expf (Fin a) = ovf (exp a)"

text \<open>\<^verbatim>\<open>static float clampf(float v, float lo, float hi)\<close>\<close>

definition clampf :: "flt \<Rightarrow> flt \<Rightarrow> flt \<Rightarrow> flt" where
  "clampf v lo hi = (if flt_lt v lo then lo else (if flt_lt hi v then hi else v))"

text \<open>\<^verbatim>\<open>#define MAX_PRICE 1000.0f\<close>\<close>

definition MAX_PRICE :: flt where
  "MAX_PRICE = Fin 1000"

subsection \<open>The linear-congruential generator\<close>

definition lcg_next :: "32 word \<Rightarrow> 32 word" where
  "lcg_next s = s * 1664525 + 1013904223"

text \<open>
  \<^verbatim>\<open>lcg_float\<close> advances the state through its pointer and returns the top 24
  bits scaled into \<open>[0, 1)\<close>; both conversions are exact in single precision.
\<close>

definition lcg_float :: "32 word \<Rightarrow> flt \<times> 32 word" where
  "lcg_float s = (let s' = lcg_next s in (Fin (real (unat (drop_bit 8 s')) / 16777216), s'))"

subsection \<open>Counted loops\<close>

text \<open>
  Every batch transform is \<^verbatim>\<open>for (int i = 0; i < count; i++) body\<close>; no body
  changes a \<^verbatim>\<open>count\<close>, so the bound is read once.
\<close>

function for_from :: "int \<Rightarrow> int \<Rightarrow> (int \<Rightarrow> 's \<Rightarrow> 's) \<Rightarrow> 's \<Rightarrow> 's" where
  "for_from i n body s = (if i < n then for_from (i + 1) n body (body i s) else s)"
  by pat_completeness auto
termination
  by (relation "measure (\<lambda>(i, n, body, s). nat (n - i))") auto

declare for_from.simps [simp del]

section \<open>The columnar containers\<close>

text \<open>
  Each \<^verbatim>\<open>...SoA\<close> struct of \<^verbatim>\<open>simulation.h\<close> is a record of columns and a signed
  \<^verbatim>\<open>count\<close>. A column is the array its pointer refers to. The ten structs all
  call their last field \<^verbatim>\<open>count\<close>; here it carries the container's name. The economy
  column \<^verbatim>\<open>supply\<close> is \<open>supply_level\<close>, since \<open>supply\<close> is a keyword of the proof language.
\<close>

record PopSoA =
  population :: "flt list"
  carrying_cap :: "flt list"
  growth_rate :: "flt list"
  susceptible :: "flt list"
  infected :: "flt list"
  recovered :: "flt list"
  beta :: "flt list"
  gamma_rec :: "flt list"
  food_supply :: "flt list"
  food_threshold :: "flt list"
  age_young :: "flt list"
  age_adult :: "flt list"
  age_elder :: "flt list"
  pop_count :: int

record FaithSoA =
  faith_level :: "flt list"
  mana :: "flt list"
  mana_regen :: "flt list"
  heresy_rate :: "flt list"
  miracle_chance :: "flt list"
  devotee_count :: "flt list"
  temple_count :: "flt list"
  schism_risk :: "flt list"
  conversion_rate :: "flt list"
  divine_favor :: "flt list"
  faith_count :: int

record CombatSoA =
  base_atk :: "flt list"
  armor :: "flt list"
  hp :: "flt list"
  max_hp :: "flt list"
  morale :: "flt list"
  morale_decay :: "flt list"
  hit_chance :: "flt list"
  crit_chance :: "flt list"
  crit_mult :: "flt list"
  rout_threshold :: "flt list"
  combat_count :: int

record EconSoA =
  resource :: "flt list"
  max_resource :: "flt list"
  gather_rate :: "flt list"
  depletion_rate :: "flt list"
  price :: "flt list"
  demand :: "flt list"
  supply_level :: "flt list"
  tax_rate :: "flt list"
  tax_collected :: "flt list"
  trade_volume :: "flt list"
  econ_count :: int

record MoveSoA =
  pos_x :: "flt list"
  pos_y :: "flt list"
  vel_x :: "flt list"
  vel_y :: "flt list"
  acc_x :: "flt list"
  acc_y :: "flt list"
  heading :: "flt list"
  speed :: "flt list"
  max_speed :: "flt list"
  h_cost :: "flt list"
  move_count :: int

record DivineSoA =
  energy :: "flt list"
  energy_cap :: "flt list"
  regen_rate :: "flt list"
  meteor_cost :: "flt list"
  heal_amount :: "flt list"
  heal_decay :: "flt list"
  terraform_cost :: "flt list"
  smite_power :: "flt list"
  blessing_mult :: "flt list"
  cooldown :: "flt list"
  divine_count :: int

record PsychSoA =
  happiness :: "flt list"
  fear :: "flt list"
  loyalty :: "flt list"
  aggression :: "flt list"
  utility_work :: "flt list"
  utility_fight :: "flt list"
  utility_flee :: "flt list"
  threat_level :: "flt list"
  memory_decay :: "flt list"
  social_bond :: "flt list"
  psych_count :: int

record TechSoA =
  research_pts :: "flt list"
  research_rate :: "flt list"
  tech_cost :: "flt list"
  tech_level :: "flt list"
  golden_age_mult :: "flt list"
  golden_age_timer :: "flt list"
  culture :: "flt list"
  culture_spread :: "flt list"
  era :: "flt list"
  pop_bonus :: "flt list"
  tech_count :: int

record EngineSoA =
  entropy :: "flt list"
  entropy_rate :: "flt list"
  grid_x :: "flt list"
  grid_y :: "flt list"
  inv_sqrt_val :: "flt list"
  inv_sqrt_out :: "flt list"
  stability :: "flt list"
  end_timer :: "flt list"
  victory_pts :: "flt list"
  chaos_mult :: "flt list"
  rng_state :: "32 word list"
  engine_count :: int

section \<open>Population\<close>

definition pop_logistic_growth_body :: "flt \<Rightarrow> int \<Rightarrow> PopSoA \<Rightarrow> PopSoA" where
  "pop_logistic_growth_body dt i p =
     (let n = population p ! nat i;
          k = carrying_cap p ! nat i;
          r = growth_rate p ! nat i;
          dn = fmul (fmul r n) (fsub (Fin 1) (fdiv n k))
      in p\<lparr>population := (population p)[nat i := clampf (fadd n (fmul dn dt)) (Fin 0) k]\<rparr>)"

definition pop_logistic_growth :: "PopSoA \<Rightarrow> flt \<Rightarrow> PopSoA" where
  "pop_logistic_growth p dt = for_from 0 (pop_count p) (pop_logistic_growth_body dt) p"

text \<open>
  The explicit Euler update of the three compartments inside \<^verbatim>\<open>pop_sir_step\<close>,
  before the normalisation: the locals \<^verbatim>\<open>s\<close>, \<^verbatim>\<open>inf\<close>, \<^verbatim>\<open>r\<close> after the three
  compound assignments (\<^verbatim>\<open>inf\<close> is \<open>infd\<close> here).
\<close>

definition sir_euler :: "flt \<Rightarrow> flt \<Rightarrow> flt \<Rightarrow> flt \<Rightarrow> flt \<Rightarrow> flt \<Rightarrow> flt \<Rightarrow> flt \<times> flt \<times> flt" where
  "sir_euler n s infd r bet gam dt =
     (let new_inf = fdiv (fmul (fmul bet s) infd) n;
          new_rec = fmul gam infd
      in (fsub s (fmul new_inf dt),
          fadd infd (fmul (fsub new_inf new_rec) dt),
          fadd r (fmul new_rec dt)))"

definition pop_sir_step_body :: "flt \<Rightarrow> int \<Rightarrow> PopSoA \<Rightarrow> PopSoA" where
  "pop_sir_step_body dt i p =
     (let n = population p ! nat i in
      if flt_le n (Fin 0) then p
      else
        (case sir_euler n (susceptible p ! nat i) (infected p ! nat i) (recovered p ! nat i)
                (beta p ! nat i) (gamma_rec p ! nat i) dt of
           (s, infd, r) \<Rightarrow>
             let total = fadd (fadd s infd) r in
             if flt_lt (Fin 0) total then
               p\<lparr>susceptible := (susceptible p)[nat i := clampf (fdiv s total) (Fin 0) (Fin 1)],
                 infected := (infected p)[nat i := clampf (fdiv infd total) (Fin 0) (Fin 1)],
                 recovered := (recovered p)[nat i := clampf (fdiv r total) (Fin 0) (Fin 1)]\<rparr>
             else p))"

definition pop_sir_step :: "PopSoA \<Rightarrow> flt \<Rightarrow> PopSoA" where
  "pop_sir_step p dt = for_from 0 (pop_count p) (pop_sir_step_body dt) p"

text \<open>
  What one iteration of \<^verbatim>\<open>pop_sir_step\<close> stores in the three compartments of its
  index, as a function of the seven values it reads there: nothing when the
  population is not positive or the stepped total is not positive.
\<close>

definition sir_normalised ::
  "flt \<Rightarrow> flt \<Rightarrow> flt \<Rightarrow> flt \<Rightarrow> flt \<Rightarrow> flt \<Rightarrow> flt \<Rightarrow> (flt \<times> flt \<times> flt) option" where
  "sir_normalised n s infd r bet gam dt =
     (if flt_le n (Fin 0) then None
      else
        (case sir_euler n s infd r bet gam dt of
           (s1, f1, r1) \<Rightarrow>
             let total = fadd (fadd s1 f1) r1 in
             if flt_lt (Fin 0) total then
               Some (clampf (fdiv s1 total) (Fin 0) (Fin 1),
                     clampf (fdiv f1 total) (Fin 0) (Fin 1),
                     clampf (fdiv r1 total) (Fin 0) (Fin 1))
             else None))"

text \<open>
  \<^verbatim>\<open>pop_migration\<close> takes two containers; the model is of a call with two distinct
  ones.
\<close>

definition pop_migration :: "PopSoA \<Rightarrow> PopSoA \<Rightarrow> int \<Rightarrow> flt \<Rightarrow> flt \<Rightarrow> PopSoA \<times> PopSoA" where
  "pop_migration src dst idx rate dt =
     (if idx < 0 \<or> pop_count src \<le> idx \<or> pop_count dst \<le> idx then (src, dst)
      else
        let amount = fmul (fmul rate (population src ! nat idx)) dt in
        (src\<lparr>population := (population src)[nat idx :=
              clampf (fsub (population src ! nat idx) amount) (Fin 0) (carrying_cap src ! nat idx)]\<rparr>,
         dst\<lparr>population := (population dst)[nat idx :=
              clampf (fadd (population dst ! nat idx) amount) (Fin 0) (carrying_cap dst ! nat idx)]\<rparr>))"

section \<open>Faith\<close>

text \<open>
  \<^verbatim>\<open>extern uint32_t global_tick\<close> is in scope of every function of the library.
  \<^verbatim>\<open>faith_miracle_check\<close> is modelled with the value of that global as its first
  argument, so that what the function does with it can be stated; the body of the
  source does not mention it. The state of the loop is the output array.
\<close>

definition faith_miracle_check_body :: "FaithSoA \<Rightarrow> int \<Rightarrow> int list \<Rightarrow> int list" where
  "faith_miracle_check_body f i miracle_out =
     (let seed = (word_of_int (i + 1) :: 32 word) * 2654435761;
          roll = fst (lcg_float seed)
      in miracle_out[nat i :=
           (if flt_lt roll (fmul (miracle_chance f ! nat i) (divine_favor f ! nat i)) then 1 else 0)])"

definition faith_miracle_check :: "32 word \<Rightarrow> FaithSoA \<Rightarrow> int list \<Rightarrow> int list" where
  "faith_miracle_check global_tick f miracle_out =
     for_from 0 (faith_count f) (faith_miracle_check_body f) miracle_out"

definition faith_ritual_cost :: "FaithSoA \<Rightarrow> int \<Rightarrow> flt \<Rightarrow> FaithSoA" where
  "faith_ritual_cost f idx ritual_mana =
     (if idx < 0 \<or> faith_count f \<le> idx then f
      else f\<lparr>mana := (mana f)[nat idx :=
             clampf (fsub (mana f ! nat idx) ritual_mana) (Fin 0) (Fin 1000)]\<rparr>)"

section \<open>Combat\<close>

definition combat_apply_damage :: "CombatSoA \<Rightarrow> int \<Rightarrow> int \<Rightarrow> flt \<Rightarrow> CombatSoA" where
  "combat_apply_damage c attacker defender raw_dmg =
     (if attacker < 0 \<or> combat_count c \<le> attacker then c
      else if defender < 0 \<or> combat_count c \<le> defender then c
      else
        let dmg0 = fsub raw_dmg (fmul (armor c ! nat defender) (Fin 0.5));
            dmg = (if flt_lt dmg0 (Fin 1) then Fin 1 else dmg0)
        in c\<lparr>hp := (hp c)[nat defender :=
               clampf (fsub (hp c ! nat defender) dmg) (Fin 0) (max_hp c ! nat defender)]\<rparr>)"

definition combat_armor_mitigation_body :: "CombatSoA \<Rightarrow> int \<Rightarrow> flt list \<Rightarrow> flt list" where
  "combat_armor_mitigation_body c i dmg_inout =
     (let mit = fdiv (armor c ! nat i) (fadd (armor c ! nat i) (Fin 100))
      in dmg_inout[nat i := fmul (dmg_inout ! nat i) (fsub (Fin 1) mit)])"

definition combat_armor_mitigation :: "CombatSoA \<Rightarrow> flt list \<Rightarrow> flt list" where
  "combat_armor_mitigation c dmg_inout =
     for_from 0 (combat_count c) (combat_armor_mitigation_body c) dmg_inout"

text \<open>The container is \<^verbatim>\<open>const\<close> in the two rolls; the result is the value written to the output.\<close>

definition combat_hit_roll :: "CombatSoA \<Rightarrow> int \<Rightarrow> int" where
  "combat_hit_roll c attacker =
     (if attacker < 0 \<or> combat_count c \<le> attacker then 0
      else
        let seed = (word_of_int (attacker + 1) :: 32 word) * 2246822519 in
        if flt_lt (fst (lcg_float seed)) (hit_chance c ! nat attacker) then 1 else 0)"

definition combat_crit_roll :: "CombatSoA \<Rightarrow> int \<Rightarrow> flt" where
  "combat_crit_roll c attacker =
     (if attacker < 0 \<or> combat_count c \<le> attacker then Fin 1
      else
        let seed = (word_of_int (attacker + 1) :: 32 word) * 3266489917 in
        if flt_lt (fst (lcg_float seed)) (crit_chance c ! nat attacker)
        then crit_mult c ! nat attacker else Fin 1)"

definition combat_morale_boost :: "CombatSoA \<Rightarrow> int \<Rightarrow> flt \<Rightarrow> CombatSoA" where
  "combat_morale_boost c unit amount =
     (if unit < 0 \<or> combat_count c \<le> unit then c
      else c\<lparr>morale := (morale c)[nat unit :=
             clampf (fadd (morale c ! nat unit) amount) (Fin 0) (Fin 1)]\<rparr>)"

definition combat_siege_damage :: "CombatSoA \<Rightarrow> int \<Rightarrow> flt \<Rightarrow> flt \<Rightarrow> CombatSoA" where
  "combat_siege_damage c building siege_power dt =
     (if building < 0 \<or> combat_count c \<le> building then c
      else c\<lparr>hp := (hp c)[nat building :=
             clampf (fsub (hp c ! nat building) (fmul siege_power dt))
               (Fin 0) (max_hp c ! nat building)]\<rparr>)"

section \<open>Economy\<close>

definition econ_market_price_body :: "int \<Rightarrow> EconSoA \<Rightarrow> EconSoA" where
  "econ_market_price_body i e =
     (let sup = (if flt_lt (Fin 1) (supply_level e ! nat i) then supply_level e ! nat i else Fin 1);
          base = (if flt_lt (Fin 0) (price e ! nat i) then price e ! nat i else Fin 1)
      in e\<lparr>price := (price e)[nat i :=
             clampf (fmul base (sqrtf (fdiv (demand e ! nat i) sup))) (Fin 0.01) MAX_PRICE]\<rparr>)"

definition econ_market_price :: "EconSoA \<Rightarrow> EconSoA" where
  "econ_market_price e = for_from 0 (econ_count e) econ_market_price_body e"

text \<open>
  The price rule in the words of the specification, to compare with
  \<^verbatim>\<open>econ_market_price\<close>: \<open>price \<cdot> sqrt (demand / max (supply, 1))\<close>, clamped to the
  ceiling.
\<close>

definition spec_market_price :: "flt \<Rightarrow> flt \<Rightarrow> flt \<Rightarrow> flt" where
  "spec_market_price p d s =
     (let x = fmul p (sqrtf (fdiv d (if flt_lt (Fin 1) s then s else Fin 1)))
      in if flt_lt MAX_PRICE x then MAX_PRICE else x)"

text \<open>\<^verbatim>\<open>econ_trade\<close> on two distinct containers. \<open>trade_actual\<close> is the local \<^verbatim>\<open>actual\<close>.\<close>

definition trade_actual :: "flt \<Rightarrow> flt \<Rightarrow> flt" where
  "trade_actual amount stock = (if flt_lt amount stock then amount else stock)"

definition econ_trade :: "EconSoA \<Rightarrow> int \<Rightarrow> EconSoA \<Rightarrow> int \<Rightarrow> flt \<Rightarrow> EconSoA \<times> EconSoA" where
  "econ_trade seller si buyer bi amount =
     (if si < 0 \<or> econ_count seller \<le> si then (seller, buyer)
      else if bi < 0 \<or> econ_count buyer \<le> bi then (seller, buyer)
      else
        let actual = trade_actual amount (resource seller ! nat si);
            seller1 = seller\<lparr>resource := (resource seller)[nat si :=
                        clampf (fsub (resource seller ! nat si) actual)
                          (Fin 0) (max_resource seller ! nat si)]\<rparr>;
            buyer1 = buyer\<lparr>resource := (resource buyer)[nat bi :=
                        clampf (fadd (resource buyer ! nat bi) actual)
                          (Fin 0) (max_resource buyer ! nat bi)]\<rparr>
        in (seller1\<lparr>trade_volume := (trade_volume seller1)[nat si :=
                      fadd (trade_volume seller1 ! nat si) actual]\<rparr>,
            buyer1\<lparr>trade_volume := (trade_volume buyer1)[nat bi :=
                      fadd (trade_volume buyer1 ! nat bi) actual]\<rparr>))"

section \<open>Movement\<close>

text \<open>
  \<^verbatim>\<open>fast_inv_sqrt_scalar\<close> copies the bytes of its argument into a \<^verbatim>\<open>uint32_t\<close>,
  computes on the bit pattern and copies the bytes back. The values here have no
  bit pattern, so the two copies are parameters: \<open>bits_of\<close> for the
  \<^verbatim>\<open>memcpy\<close> into the integer and \<open>float_of\<close> for the one out of it.
\<close>

definition fast_inv_sqrt_scalar :: "(flt \<Rightarrow> 32 word) \<Rightarrow> (32 word \<Rightarrow> flt) \<Rightarrow> flt \<Rightarrow> flt" where
  "fast_inv_sqrt_scalar bits_of float_of x =
     (let i = bits_of x;
          i' = 0x5f3759df - drop_bit 1 i;
          y = float_of i'
      in fmul y (fsub (Fin 1.5) (fmul (fmul (fmul (Fin 0.5) x) y) y)))"

definition move_seek_target ::
  "(flt \<Rightarrow> 32 word) \<Rightarrow> (32 word \<Rightarrow> flt) \<Rightarrow> MoveSoA \<Rightarrow> int \<Rightarrow> flt \<Rightarrow> flt \<Rightarrow> flt \<Rightarrow> MoveSoA" where
  "move_seek_target bits_of float_of m unit tx ty strength =
     (if unit < 0 \<or> move_count m \<le> unit then m
      else
        let dx = fsub tx (pos_x m ! nat unit);
            dy = fsub ty (pos_y m ! nat unit);
            d2 = fadd (fmul dx dx) (fmul dy dy)
        in if flt_lt d2 (Fin (1 / 1000000)) then m
           else
             let inv_d = fast_inv_sqrt_scalar bits_of float_of d2;
                 m1 = m\<lparr>acc_x := (acc_x m)[nat unit :=
                        fadd (acc_x m ! nat unit) (fmul (fmul strength dx) inv_d)]\<rparr>
             in m1\<lparr>acc_y := (acc_y m1)[nat unit :=
                        fadd (acc_y m1 ! nat unit) (fmul (fmul strength dy) inv_d)]\<rparr>)"

definition move_flee_target ::
  "(flt \<Rightarrow> 32 word) \<Rightarrow> (32 word \<Rightarrow> flt) \<Rightarrow> MoveSoA \<Rightarrow> int \<Rightarrow> flt \<Rightarrow> flt \<Rightarrow> flt \<Rightarrow> MoveSoA" where
  "move_flee_target bits_of float_of m unit tx ty strength =
     move_seek_target bits_of float_of m unit tx ty (fneg strength)"

definition move_astar_heuristic :: "MoveSoA \<Rightarrow> int \<Rightarrow> flt \<Rightarrow> flt \<Rightarrow> MoveSoA" where
  "move_astar_heuristic m unit gx gy =
     (if unit < 0 \<or> move_count m \<le> unit then m
      else
        let dx = fsub gx (pos_x m ! nat unit);
            dy = fsub gy (pos_y m ! nat unit)
        in m\<lparr>h_cost := (h_cost m)[nat unit := sqrtf (fadd (fmul dx dx) (fmul dy dy))]\<rparr>)"

definition move_arrival_brake :: "MoveSoA \<Rightarrow> int \<Rightarrow> flt \<Rightarrow> flt \<Rightarrow> flt \<Rightarrow> MoveSoA" where
  "move_arrival_brake m unit tx ty slow_radius =
     (if unit < 0 \<or> move_count m \<le> unit then m
      else
        let dx = fsub tx (pos_x m ! nat unit);
            dy = fsub ty (pos_y m ! nat unit);
            dist = sqrtf (fadd (fmul dx dx) (fmul dy dy))
        in if flt_lt dist slow_radius \<and> flt_lt (Fin (1 / 1000000)) dist then
             let factor = fdiv dist slow_radius in
             m\<lparr>vel_x := (vel_x m)[nat unit := fmul (vel_x m ! nat unit) factor],
               vel_y := (vel_y m)[nat unit := fmul (vel_y m ! nat unit) factor],
               speed := (speed m)[nat unit := fmul (speed m ! nat unit) factor]\<rparr>
           else m)"

section \<open>Divine powers\<close>

text \<open>
  A function that writes through an \<^verbatim>\<open>int *\<close> output parameter on every path
  returns the written value beside the container.
\<close>

definition divine_meteor_cost :: "DivineSoA \<Rightarrow> int \<Rightarrow> DivineSoA \<times> int" where
  "divine_meteor_cost d god =
     (if god < 0 \<or> divine_count d \<le> god then (d, 0)
      else if flt_le (meteor_cost d ! nat god) (energy d ! nat god) then
        (d\<lparr>energy := (energy d)[nat god :=
              clampf (fsub (energy d ! nat god) (meteor_cost d ! nat god))
                (Fin 0) (energy_cap d ! nat god)]\<rparr>, 1)
      else (d, 0))"

definition divine_terraform_cost :: "DivineSoA \<Rightarrow> int \<Rightarrow> int \<Rightarrow> DivineSoA \<times> int" where
  "divine_terraform_cost d god tiles =
     (if god < 0 \<or> divine_count d \<le> god then (d, 0)
      else
        let total = fmul (terraform_cost d ! nat god) (Fin (real_of_int tiles)) in
        if flt_le total (energy d ! nat god) then
          (d\<lparr>energy := (energy d)[nat god :=
                clampf (fsub (energy d ! nat god) total) (Fin 0) (energy_cap d ! nat god)]\<rparr>, 1)
        else (d, 0))"

definition divine_smite :: "DivineSoA \<Rightarrow> CombatSoA \<Rightarrow> int \<Rightarrow> int \<Rightarrow> DivineSoA \<times> CombatSoA" where
  "divine_smite d c god target =
     (if god < 0 \<or> divine_count d \<le> god then (d, c)
      else if target < 0 \<or> combat_count c \<le> target then (d, c)
      else
        let dmg0 = fsub (smite_power d ! nat god) (fmul (armor c ! nat target) (Fin 0.25));
            dmg = (if flt_lt dmg0 (Fin 1) then Fin 1 else dmg0);
            c' = c\<lparr>hp := (hp c)[nat target :=
                   clampf (fsub (hp c ! nat target) dmg) (Fin 0) (max_hp c ! nat target)]\<rparr>;
            d' = d\<lparr>energy := (energy d)[nat god :=
                   clampf (fsub (energy d ! nat god) (fmul (smite_power d ! nat god) (Fin 0.1)))
                     (Fin 0) (energy_cap d ! nat god)]\<rparr>
        in (d', c'))"

definition divine_blessing :: "DivineSoA \<Rightarrow> CombatSoA \<Rightarrow> int \<Rightarrow> int \<Rightarrow> DivineSoA \<times> CombatSoA" where
  "divine_blessing d c god target =
     (if god < 0 \<or> divine_count d \<le> god then (d, c)
      else if target < 0 \<or> combat_count c \<le> target then (d, c)
      else
        let mult = blessing_mult d ! nat god;
            c1 = c\<lparr>base_atk := (base_atk c)[nat target := fmul (base_atk c ! nat target) mult]\<rparr>;
            c2 = c1\<lparr>max_hp := (max_hp c1)[nat target := fmul (max_hp c1 ! nat target) mult]\<rparr>;
            c3 = c2\<lparr>hp := (hp c2)[nat target :=
                   clampf (fmul (hp c2 ! nat target) mult) (Fin 0) (max_hp c2 ! nat target)]\<rparr>;
            d' = d\<lparr>energy := (energy d)[nat god :=
                   clampf (fsub (energy d ! nat god) (Fin 10)) (Fin 0) (energy_cap d ! nat god)]\<rparr>
        in (d', c3))"

definition divine_heal_apply :: "DivineSoA \<Rightarrow> CombatSoA \<Rightarrow> int \<Rightarrow> int \<Rightarrow> DivineSoA \<times> CombatSoA" where
  "divine_heal_apply d c god target_unit =
     (if god < 0 \<or> divine_count d \<le> god then (d, c)
      else if target_unit < 0 \<or> combat_count c \<le> target_unit then (d, c)
      else
        let c' = c\<lparr>hp := (hp c)[nat target_unit :=
                   clampf (fadd (hp c ! nat target_unit) (heal_amount d ! nat god))
                     (Fin 0) (max_hp c ! nat target_unit)]\<rparr>;
            d' = d\<lparr>heal_amount := (heal_amount d)[nat god :=
                   clampf (fmul (heal_amount d ! nat god) (fsub (Fin 1) (heal_decay d ! nat god)))
                     (Fin 1) (Fin 1000000)]\<rparr>
        in (d', c'))"

section \<open>Psychology\<close>

definition psych_threat_assess :: "PsychSoA \<Rightarrow> CombatSoA \<Rightarrow> int \<Rightarrow> int \<Rightarrow> PsychSoA" where
  "psych_threat_assess p c npc threat_unit =
     (if npc < 0 \<or> psych_count p \<le> npc then p
      else if threat_unit < 0 \<or> combat_count c \<le> threat_unit then p
      else
        let hp_frac = fdiv (hp c ! nat threat_unit) (fadd (max_hp c ! nat threat_unit) (Fin 1));
            atk_norm = fdiv (base_atk c ! nat threat_unit) (Fin 20);
            threat = clampf (fmul hp_frac atk_norm) (Fin 0) (Fin 1)
        in p\<lparr>threat_level := (threat_level p)[nat npc :=
               clampf (fadd (threat_level p ! nat npc) (fmul threat (Fin 0.3))) (Fin 0) (Fin 1)],
             fear := (fear p)[nat npc :=
               clampf (fadd (fear p ! nat npc) (fmul threat (Fin 0.1))) (Fin 0) (Fin 1)]\<rparr>)"

definition psych_loyalty_shift :: "PsychSoA \<Rightarrow> int \<Rightarrow> flt \<Rightarrow> PsychSoA" where
  "psych_loyalty_shift p npc event_loyalty_delta =
     (if npc < 0 \<or> psych_count p \<le> npc then p
      else
        let scaled = fmul event_loyalty_delta
                       (fadd (Fin 0.5) (fmul (Fin 0.5) (social_bond p ! nat npc)))
        in p\<lparr>loyalty := (loyalty p)[nat npc :=
               clampf (fadd (loyalty p ! nat npc) scaled) (Fin 0) (Fin 1)]\<rparr>)"

definition psych_aggression_trigger :: "PsychSoA \<Rightarrow> int \<Rightarrow> flt \<Rightarrow> PsychSoA" where
  "psych_aggression_trigger p npc provocation =
     (if npc < 0 \<or> psych_count p \<le> npc then p
      else
        let rise = fmul provocation (fsub (Fin 1) (happiness p ! nat npc))
        in p\<lparr>aggression := (aggression p)[nat npc :=
               clampf (fadd (aggression p ! nat npc) rise) (Fin 0) (Fin 1)]\<rparr>)"

section \<open>Technology\<close>

definition tech_cost_scale_body :: "int \<Rightarrow> TechSoA \<Rightarrow> TechSoA" where
  "tech_cost_scale_body i t =
     (let exponent = clampf (fmul (tech_level t ! nat i) (Fin 0.3)) (Fin 0) (Fin 20)
      in t\<lparr>tech_cost := (tech_cost t)[nat i := fmul (Fin 100) (expf exponent)]\<rparr>)"

definition tech_cost_scale :: "TechSoA \<Rightarrow> TechSoA" where
  "tech_cost_scale t = for_from 0 (tech_count t) tech_cost_scale_body t"

definition tech_golden_age_trigger :: "TechSoA \<Rightarrow> int \<Rightarrow> flt \<Rightarrow> TechSoA" where
  "tech_golden_age_trigger t nation threshold =
     (if nation < 0 \<or> tech_count t \<le> nation then t
      else if flt_le threshold (culture t ! nat nation)
              \<and> flt_le (golden_age_timer t ! nat nation) (Fin 0) then
        t\<lparr>golden_age_timer := (golden_age_timer t)[nat nation := Fin 500],
          golden_age_mult := (golden_age_mult t)[nat nation := Fin 2]\<rparr>
      else t)"

text \<open>The source container of \<^verbatim>\<open>tech_diffusion\<close> is \<^verbatim>\<open>const\<close>; the result is the destination.\<close>

definition tech_diffusion :: "TechSoA \<Rightarrow> TechSoA \<Rightarrow> int \<Rightarrow> int \<Rightarrow> flt \<Rightarrow> flt \<Rightarrow> TechSoA" where
  "tech_diffusion src dst si di rate dt =
     (if si < 0 \<or> tech_count src \<le> si then dst
      else if di < 0 \<or> tech_count dst \<le> di then dst
      else dst\<lparr>research_pts := (research_pts dst)[nat di :=
             fadd (research_pts dst ! nat di) (fmul (fmul rate (tech_level src ! nat si)) dt)]\<rparr>)"

section \<open>Engine and end game\<close>

text \<open>
  \<open>stability_combine\<close> is the expression assigned to \<^verbatim>\<open>stability[i]\<close> in
  \<^verbatim>\<open>engine_stability_update\<close>, as a function of the entropy complement,
  \<^verbatim>\<open>tech_norm\<close> and \<^verbatim>\<open>pop_pressure\<close>.
\<close>

definition stability_combine :: "flt \<Rightarrow> flt \<Rightarrow> flt \<Rightarrow> flt" where
  "stability_combine compl tech_norm pop_pressure =
     clampf (fmul (fmul compl (fadd (Fin 0.5) (fmul (Fin 0.5) tech_norm)))
                  (fsub (Fin 1) (fmul (Fin 0.5) pop_pressure)))
            (Fin 0) (Fin 1)"

definition stability_tech_norm :: "TechSoA \<Rightarrow> int \<Rightarrow> flt" where
  "stability_tech_norm t i =
     (if i < tech_count t then clampf (fdiv (tech_level t ! nat i) (Fin 50)) (Fin 0) (Fin 1)
      else Fin 0.5)"

definition stability_pop_pressure :: "PopSoA \<Rightarrow> int \<Rightarrow> flt" where
  "stability_pop_pressure p i =
     (if i < pop_count p
      then clampf (fdiv (population p ! nat i) (fadd (carrying_cap p ! nat i) (Fin 1))) (Fin 0) (Fin 1)
      else Fin 0)"

definition engine_stability_update_body :: "PopSoA \<Rightarrow> TechSoA \<Rightarrow> int \<Rightarrow> EngineSoA \<Rightarrow> EngineSoA" where
  "engine_stability_update_body p t i e =
     (let tech_norm = stability_tech_norm t i;
          pop_pressure = stability_pop_pressure p i
      in e\<lparr>stability := (stability e)[nat i :=
             stability_combine (fsub (Fin 1) (entropy e ! nat i)) tech_norm pop_pressure]\<rparr>)"

text \<open>
  The definition in \<^verbatim>\<open>simulation.c\<close> is
  \<^verbatim>\<open>void engine_stability_update(EngineSoA *e, const TechSoA *t)\<close>. Its body reads
  \<^verbatim>\<open>p->count\<close>, \<^verbatim>\<open>p->population\<close> and \<^verbatim>\<open>p->carrying_cap\<close>, and \<^verbatim>\<open>p\<close> is neither of
  the two parameters; neither \<^verbatim>\<open>simulation.c\<close> nor \<^verbatim>\<open>simulation.h\<close> declares an
  object of that name. (\<^verbatim>\<open>simulation.h\<close> declares the function with three parameters,
  \<^verbatim>\<open>EngineSoA *e, const PopSoA *p, const TechSoA *t\<close>.)

  The model has the two parameters of the definition and, before them, what the
  identifier \<^verbatim>\<open>p\<close> denotes in the scope of the body: \<open>None\<close> where nothing declares
  it. Then the compiler rejects the definition, no function exists to be called,
  and the result is the error. \<open>simulation_c_p\<close> is what \<^verbatim>\<open>p\<close> denotes in the file
  as it is.
\<close>

datatype c_error = Undeclared string


definition engine_stability_update ::
  "PopSoA option \<Rightarrow> EngineSoA \<Rightarrow> TechSoA \<Rightarrow> c_error + EngineSoA" where
  "engine_stability_update p_decl e t =
     (case p_decl of
        None \<Rightarrow> Inl (Undeclared ''p'')
      | Some p \<Rightarrow> Inr (for_from 0 (engine_count e) (engine_stability_update_body p t) e))"

text \<open>
  Stability in the words of the specification, to compare with
  \<^verbatim>\<open>engine_stability_update\<close>: the entropy complement, the technology term
  \<^verbatim>\<open>tech_level / 50\<close> and the population pressure
  \<^verbatim>\<open>population / (carrying_cap + 1)\<close>, each clamped to \<open>[0, 1]\<close> before they are
  combined.
\<close>

definition spec_stability :: "flt \<Rightarrow> flt \<Rightarrow> flt \<Rightarrow> flt \<Rightarrow> flt" where
  "spec_stability entr level pop cap =
     stability_combine (clampf (fsub (Fin 1) entr) (Fin 0) (Fin 1))
       (clampf (fdiv level (Fin 50)) (Fin 0) (Fin 1))
       (clampf (fdiv pop (fadd cap (Fin 1))) (Fin 0) (Fin 1))"

definition engine_chaos_event :: "EngineSoA \<Rightarrow> int \<Rightarrow> EngineSoA" where
  "engine_chaos_event e faction =
     (if faction < 0 \<or> engine_count e \<le> faction then e
      else
        (case lcg_float (rng_state e ! nat faction) of
           (roll, s') \<Rightarrow>
             let e1 = e\<lparr>rng_state := (rng_state e)[nat faction := s']\<rparr> in
             if flt_lt roll (entropy e1 ! nat faction) then
               e1\<lparr>chaos_mult := (chaos_mult e1)[nat faction :=
                     clampf (fmul (chaos_mult e1 ! nat faction) (fadd (Fin 1) roll))
                       (Fin 1) (Fin 10)]\<rparr>
             else
               e1\<lparr>chaos_mult := (chaos_mult e1)[nat faction :=
                     clampf (fmul (chaos_mult e1 ! nat faction) (Fin 0.99)) (Fin 1) (Fin 10)]\<rparr>))"

definition engine_entropy_reset :: "EngineSoA \<Rightarrow> int \<Rightarrow> EngineSoA" where
  "engine_entropy_reset e faction =
     (if faction < 0 \<or> engine_count e \<le> faction then e
      else e\<lparr>entropy := (entropy e)[nat faction := Fin 0],
             chaos_mult := (chaos_mult e)[nat faction := Fin 1]\<rparr>)"

definition engine_determinism_seed :: "EngineSoA \<Rightarrow> int \<Rightarrow> 32 word \<Rightarrow> EngineSoA" where
  "engine_determinism_seed e faction seed =
     (if faction < 0 \<or> engine_count e \<le> faction then e
      else e\<lparr>rng_state := (rng_state e)[nat faction := (if seed \<noteq> 0 then seed else 1)]\<rparr>)"

section \<open>Example containers\<close>

text \<open>Containers of one element each, used to run the transforms on concrete values.\<close>

definition poor_god :: DivineSoA where
  "poor_god = \<lparr>energy = [Fin 0], energy_cap = [Fin 100], regen_rate = [Fin 1],
     meteor_cost = [Fin 10], heal_amount = [Fin 5], heal_decay = [Fin 0.1],
     terraform_cost = [Fin 2], smite_power = [Fin 50], blessing_mult = [Fin 2],
     cooldown = [Fin 0], divine_count = 1\<rparr>"

definition rich_god :: DivineSoA where
  "rich_god = poor_god\<lparr>energy := [Fin 50]\<rparr>"

definition smite_victim :: CombatSoA where
  "smite_victim = \<lparr>base_atk = [Fin 8], armor = [Fin 0], hp = [Fin 100], max_hp = [Fin 100],
     morale = [Fin 1], morale_decay = [Fin 0], hit_chance = [Fin 0.5], crit_chance = [Fin 0.1],
     crit_mult = [Fin 2], rout_threshold = [Fin 0.2], combat_count = 1\<rparr>"

definition full_land :: PopSoA where
  "full_land = \<lparr>population = [Fin 100], carrying_cap = [Fin 100], growth_rate = [Fin 0.1],
     susceptible = [Fin 0.5], infected = [Fin 0.5], recovered = [Fin 0],
     beta = [Fin 4], gamma_rec = [Fin 0.5], food_supply = [Fin 50], food_threshold = [Fin 10],
     age_young = [Fin 0.25], age_adult = [Fin 0.5], age_elder = [Fin 0.25], pop_count = 1\<rparr>"

definition shrine :: FaithSoA where
  "shrine = \<lparr>faith_level = [Fin 0.5], mana = [Fin 20], mana_regen = [Fin 1],
     heresy_rate = [Fin 0.1], miracle_chance = [Fin 0.5], devotee_count = [Fin 10],
     temple_count = [Fin 1], schism_risk = [Fin 0], conversion_rate = [Fin 0.1],
     divine_favor = [Fin 1], faith_count = 1\<rparr>"

definition scarce_market :: EconSoA where
  "scarce_market = \<lparr>resource = [Fin 0], max_resource = [Fin 100], gather_rate = [Fin 1],
     depletion_rate = [Fin 0], price = [Fin 1], demand = [Fin 10], supply_level = [Fin 0],
     tax_rate = [Fin 0.1], tax_collected = [Fin 0], trade_volume = [Fin 0], econ_count = 1\<rparr>"

definition walker :: MoveSoA where
  "walker = \<lparr>pos_x = [Fin 0], pos_y = [Fin 0], vel_x = [Fin 1], vel_y = [Fin 0],
     acc_x = [Fin 0], acc_y = [Fin 0], heading = [Fin 0], speed = [Fin 1],
     max_speed = [Fin 2], h_cost = [Fin 0], move_count = 1\<rparr>"

definition villager :: PsychSoA where
  "villager = \<lparr>happiness = [Fin 0.5], fear = [Fin 0], loyalty = [Fin 0.5], aggression = [Fin 0],
     utility_work = [Fin 1], utility_fight = [Fin 0], utility_flee = [Fin 0],
     threat_level = [Fin 0], memory_decay = [Fin 0.1], social_bond = [Fin 0.5],
     psych_count = 1\<rparr>"

definition late_civ :: TechSoA where
  "late_civ = \<lparr>research_pts = [Fin 0], research_rate = [Fin 1], tech_cost = [Fin 100],
     tech_level = [Fin 1000], golden_age_mult = [Fin 1], golden_age_timer = [Fin 0],
     culture = [Fin 10], culture_spread = [Fin 0.1], era = [Fin 0], pop_bonus = [Fin 1],
     tech_count = 1\<rparr>"

definition calm_realm :: EngineSoA where
  "calm_realm = \<lparr>entropy = [Fin 0.5], entropy_rate = [Fin 0.01], grid_x = [Fin 0], grid_y = [Fin 0],
     inv_sqrt_val = [Fin 4], inv_sqrt_out = [Fin 0], stability = [Fin 1], end_timer = [Fin 100],
     victory_pts = [Fin 0], chaos_mult = [Fin 1], rng_state = [1], engine_count = 1\<rparr>"

definition barren_land :: PopSoA where
  "barren_land = full_land\<lparr>population := [Fin 0], carrying_cap := [Fin 0]\<rparr>"

definition outbreak :: PopSoA where
  "outbreak = full_land\<lparr>population := [Fin 1]\<rparr>"

definition mild_outbreak :: PopSoA where
  "mild_outbreak = full_land\<lparr>population := [Fin 1], beta := [Fin 1]\<rparr>"

definition no_disease :: PopSoA where
  "no_disease = full_land\<lparr>susceptible := [Fin 0], infected := [Fin 0]\<rparr>"

definition granary :: EconSoA where
  "granary = scarce_market\<lparr>resource := [Fin 30]\<rparr>"

definition depot :: EconSoA where
  "depot = scarce_market\<lparr>resource := [Fin 90], trade_volume := [Fin 7]\<rparr>"

definition idle_market :: EconSoA where
  "idle_market = scarce_market\<lparr>demand := [Fin 0]\<rparr>"


section \<open>The arithmetic and the loops\<close>

lemma ovf_Fin: "\<bar>r\<bar> \<le> FLT_MAX \<Longrightarrow> ovf r = Fin r"
  by (auto simp: ovf_def)

lemma clampf_deduct:
  "0 \<le> c \<Longrightarrow> c \<le> e \<Longrightarrow> e \<le> k \<Longrightarrow> k \<le> FLT_MAX \<Longrightarrow>
   clampf (fsub (Fin e) (Fin c)) (Fin 0) (Fin k) = Fin (e - c)"
  by (simp add: clampf_def fsub_def ovf_Fin)

lemma for_from_step: "i < n \<Longrightarrow> for_from i n body s = for_from (i + 1) n body (body i s)"
  by (subst for_from.simps) simp

lemma for_from_done: "\<not> i < n \<Longrightarrow> for_from i n body s = s"
  by (subst for_from.simps) simp

text \<open>
  A loop whose body at \<open>j\<close> leaves the part of the state seen through \<open>view\<close>
  alone for every \<open>j\<close> other than \<open>i\<close> changes that part as its single step at
  \<open>i\<close> does.
\<close>

lemma for_from_untouched:
  "(\<And>j s. 0 \<le> j \<Longrightarrow> j \<noteq> i \<Longrightarrow> view (body j s) = view s) \<Longrightarrow> 0 \<le> lo \<Longrightarrow> i < lo
    \<Longrightarrow> view (for_from lo n body s) = view s"
proof (induction lo n body s rule: for_from.induct)
  case (1 j n body s)
  show ?case
  proof (cases "j < n")
    case True
    have "view (for_from (j + 1) n body (body j s)) = view (body j s)"
      using True "1.prems" by (intro "1.IH") auto
    also have "\<dots> = view s"
      using "1.prems" by auto
    finally show ?thesis using True by (simp add: for_from_step)
  next
    case False
    then show ?thesis by (simp add: for_from_done)
  qed
qed

lemma for_from_local:
  "(\<And>j s. 0 \<le> j \<Longrightarrow> j \<noteq> i \<Longrightarrow> view (body j s) = view s) \<Longrightarrow>
   (\<And>s. view (body i s) = F (view s)) \<Longrightarrow> 0 \<le> lo \<Longrightarrow> lo \<le> i \<Longrightarrow> i < n
    \<Longrightarrow> view (for_from lo n body s) = F (view s)"
proof (induction lo n body s rule: for_from.induct)
  case (1 j n body s)
  have jn: "j < n" using "1.prems" by simp
  show ?case
  proof (cases "j = i")
    case True
    have "view (for_from (j + 1) n body (body j s)) = view (body j s)"
      using "1.prems" True by (intro for_from_untouched [where i = i]) auto
    then show ?thesis using jn True "1.prems"(2) by (simp add: for_from_step)
  next
    case False
    have "view (for_from (j + 1) n body (body j s)) = F (view (body j s))"
      using jn False "1.prems" by (intro "1.IH") auto
    also have "view (body j s) = view s"
      using "1.prems" False by auto
    finally show ?thesis using jn by (simp add: for_from_step)
  qed
qed

section \<open>Divine powers: affordability\<close>

text \<open>
  Claim C1, as the code has it. For a god index in range, \<^verbatim>\<open>divine_meteor_cost\<close> and
  \<^verbatim>\<open>divine_terraform_cost\<close> compare the energy with the cost first: when the energy
  covers the cost they report 1 and replace \<^verbatim>\<open>energy[god]\<close> by the difference
  clamped to \<open>[0, energy_cap]\<close>, changing nothing else; otherwise they report 0 and
  return the container as it was. The difference is exact when
  \<open>0 \<le> cost \<le> energy \<le> energy_cap\<close>. \<^verbatim>\<open>divine_smite\<close> and \<^verbatim>\<open>divine_blessing\<close>
  make no such comparison: for indices in range they always apply their effect to
  the target and subtract their cost from the energy, clamped to \<open>[0, energy_cap]\<close>.
\<close>

theorem divine_actions_check_and_commit:
  assumes "0 \<le> god" and "god < divine_count d"
  shows
    "(flt_le (meteor_cost d ! nat god) (energy d ! nat god) \<longrightarrow>
        divine_meteor_cost d god =
          (d\<lparr>energy := (energy d)[nat god :=
               clampf (fsub (energy d ! nat god) (meteor_cost d ! nat god))
                 (Fin 0) (energy_cap d ! nat god)]\<rparr>, 1))
     \<and> (\<not> flt_le (meteor_cost d ! nat god) (energy d ! nat god) \<longrightarrow>
        divine_meteor_cost d god = (d, 0))
     \<and> (flt_le (fmul (terraform_cost d ! nat god) (Fin (real_of_int tiles))) (energy d ! nat god) \<longrightarrow>
        divine_terraform_cost d god tiles =
          (d\<lparr>energy := (energy d)[nat god :=
               clampf (fsub (energy d ! nat god)
                         (fmul (terraform_cost d ! nat god) (Fin (real_of_int tiles))))
                 (Fin 0) (energy_cap d ! nat god)]\<rparr>, 1))
     \<and> (\<not> flt_le (fmul (terraform_cost d ! nat god) (Fin (real_of_int tiles))) (energy d ! nat god) \<longrightarrow>
        divine_terraform_cost d god tiles = (d, 0))
     \<and> (\<forall>en cost cap. 0 \<le> cost \<and> cost \<le> en \<and> en \<le> cap \<and> cap \<le> FLT_MAX \<longrightarrow>
            clampf (fsub (Fin en) (Fin cost)) (Fin 0) (Fin cap) = Fin (en - cost))
     \<and> (0 \<le> target \<and> target < combat_count c \<longrightarrow>
          energy (fst (divine_smite d c god target)) =
            (energy d)[nat god :=
               clampf (fsub (energy d ! nat god) (fmul (smite_power d ! nat god) (Fin 0.1)))
                 (Fin 0) (energy_cap d ! nat god)]
          \<and> hp (snd (divine_smite d c god target)) =
            (hp c)[nat target :=
               clampf (fsub (hp c ! nat target)
                   (if flt_lt (fsub (smite_power d ! nat god) (fmul (armor c ! nat target) (Fin 0.25))) (Fin 1)
                    then Fin 1
                    else fsub (smite_power d ! nat god) (fmul (armor c ! nat target) (Fin 0.25))))
                 (Fin 0) (max_hp c ! nat target)])
     \<and> (0 \<le> target \<and> target < combat_count c \<longrightarrow>
          energy (fst (divine_blessing d c god target)) =
            (energy d)[nat god :=
               clampf (fsub (energy d ! nat god) (Fin 10)) (Fin 0) (energy_cap d ! nat god)]
          \<and> base_atk (snd (divine_blessing d c god target)) =
            (base_atk c)[nat target := fmul (base_atk c ! nat target) (blessing_mult d ! nat god)]
          \<and> max_hp (snd (divine_blessing d c god target)) =
            (max_hp c)[nat target := fmul (max_hp c ! nat target) (blessing_mult d ! nat god)])"
proof -
  have meteor_ok: "flt_le (meteor_cost d ! nat god) (energy d ! nat god) \<longrightarrow>
        divine_meteor_cost d god =
          (d\<lparr>energy := (energy d)[nat god :=
               clampf (fsub (energy d ! nat god) (meteor_cost d ! nat god))
                 (Fin 0) (energy_cap d ! nat god)]\<rparr>, 1)"
    using assms by (simp add: divine_meteor_cost_def)
  have meteor_no: "\<not> flt_le (meteor_cost d ! nat god) (energy d ! nat god) \<longrightarrow>
        divine_meteor_cost d god = (d, 0)"
    using assms by (simp add: divine_meteor_cost_def)
  have terra_ok: "flt_le (fmul (terraform_cost d ! nat god) (Fin (real_of_int tiles))) (energy d ! nat god) \<longrightarrow>
        divine_terraform_cost d god tiles =
          (d\<lparr>energy := (energy d)[nat god :=
               clampf (fsub (energy d ! nat god)
                         (fmul (terraform_cost d ! nat god) (Fin (real_of_int tiles))))
                 (Fin 0) (energy_cap d ! nat god)]\<rparr>, 1)"
    using assms by (simp add: divine_terraform_cost_def Let_def)
  have terra_no: "\<not> flt_le (fmul (terraform_cost d ! nat god) (Fin (real_of_int tiles))) (energy d ! nat god) \<longrightarrow>
        divine_terraform_cost d god tiles = (d, 0)"
    using assms by (simp add: divine_terraform_cost_def Let_def)
  have exact: "\<forall>en cost cap. 0 \<le> cost \<and> cost \<le> en \<and> en \<le> cap \<and> cap \<le> FLT_MAX \<longrightarrow>
            clampf (fsub (Fin en) (Fin cost)) (Fin 0) (Fin cap) = Fin (en - cost)"
    by (simp add: clampf_deduct)
  have smite: "0 \<le> target \<and> target < combat_count c \<longrightarrow>
          energy (fst (divine_smite d c god target)) =
            (energy d)[nat god :=
               clampf (fsub (energy d ! nat god) (fmul (smite_power d ! nat god) (Fin 0.1)))
                 (Fin 0) (energy_cap d ! nat god)]
          \<and> hp (snd (divine_smite d c god target)) =
            (hp c)[nat target :=
               clampf (fsub (hp c ! nat target)
                   (if flt_lt (fsub (smite_power d ! nat god) (fmul (armor c ! nat target) (Fin 0.25))) (Fin 1)
                    then Fin 1
                    else fsub (smite_power d ! nat god) (fmul (armor c ! nat target) (Fin 0.25))))
                 (Fin 0) (max_hp c ! nat target)]"
    using assms by (simp add: divine_smite_def Let_def)
  have bless: "0 \<le> target \<and> target < combat_count c \<longrightarrow>
          energy (fst (divine_blessing d c god target)) =
            (energy d)[nat god :=
               clampf (fsub (energy d ! nat god) (Fin 10)) (Fin 0) (energy_cap d ! nat god)]
          \<and> base_atk (snd (divine_blessing d c god target)) =
            (base_atk c)[nat target := fmul (base_atk c ! nat target) (blessing_mult d ! nat god)]
          \<and> max_hp (snd (divine_blessing d c god target)) =
            (max_hp c)[nat target := fmul (max_hp c ! nat target) (blessing_mult d ! nat god)]"
    using assms by (simp add: divine_blessing_def Let_def)
  from meteor_ok meteor_no terra_ok terra_no exact smite bless show ?thesis
    by (intro conjI)
qed

theorem divine_actions_check_and_commit_witness:
  "divine_meteor_cost poor_god 0 = (poor_god, 0)
   \<and> divine_meteor_cost rich_god 0 = (rich_god\<lparr>energy := [Fin 40]\<rparr>, 1)
   \<and> divine_terraform_cost poor_god 0 3 = (poor_god, 0)
   \<and> divine_terraform_cost rich_god 0 3 = (rich_god\<lparr>energy := [Fin 44]\<rparr>, 1)
   \<and> energy (fst (divine_smite poor_god smite_victim 0 0)) = [Fin 0]
   \<and> hp (snd (divine_smite poor_god smite_victim 0 0)) = [Fin 50]
   \<and> energy (fst (divine_blessing rich_god smite_victim 0 0)) = [Fin 40]
   \<and> base_atk (snd (divine_blessing rich_god smite_victim 0 0)) = [Fin 16]
   \<and> max_hp (snd (divine_blessing rich_god smite_victim 0 0)) = [Fin 200]"
proof -
  have p: "(0::int) \<le> 0 \<and> 0 < divine_count poor_god \<and> 0 < divine_count rich_god
            \<and> 0 < combat_count smite_victim"
    by (simp add: poor_god_def rich_god_def smite_victim_def)
  note poor = divine_actions_check_and_commit [of 0 poor_god 3 0 smite_victim]
  note rich = divine_actions_check_and_commit [of 0 rich_god 3 0 smite_victim]
  have a: "divine_meteor_cost poor_god 0 = (poor_god, 0)"
    using poor p by (simp add: poor_god_def)
  have b: "divine_meteor_cost rich_god 0 = (rich_god\<lparr>energy := [Fin 40]\<rparr>, 1)"
    using rich p by (simp add: poor_god_def rich_god_def clampf_def fsub_def ovf_Fin FLT_MAX_def)
  have c: "divine_terraform_cost poor_god 0 3 = (poor_god, 0)"
    using poor p by (simp add: poor_god_def ovf_Fin FLT_MAX_def)
  have d: "divine_terraform_cost rich_god 0 3 = (rich_god\<lparr>energy := [Fin 44]\<rparr>, 1)"
    using rich p by (simp add: poor_god_def rich_god_def clampf_def fsub_def ovf_Fin FLT_MAX_def)
  have e: "energy (fst (divine_smite poor_god smite_victim 0 0)) = [Fin 0]
     \<and> hp (snd (divine_smite poor_god smite_victim 0 0)) = [Fin 50]"
    using poor p by (simp add: poor_god_def smite_victim_def clampf_def fsub_def ovf_Fin FLT_MAX_def)
  have f: "energy (fst (divine_blessing rich_god smite_victim 0 0)) = [Fin 40]
   \<and> base_atk (snd (divine_blessing rich_god smite_victim 0 0)) = [Fin 16]
   \<and> max_hp (snd (divine_blessing rich_god smite_victim 0 0)) = [Fin 200]"
    using rich p by (simp add: poor_god_def rich_god_def smite_victim_def clampf_def fsub_def ovf_Fin FLT_MAX_def)
  from a b c d e f show ?thesis by simp
qed

text \<open>
  Claim C1 as stated fails for \<^verbatim>\<open>divine_smite\<close> and \<^verbatim>\<open>divine_blessing\<close>: a god with
  no energy smites for the full 50 points of damage, and blesses, and the energy
  stays where it was.
\<close>

theorem divine_smite_unaffordable_still_applies:
  "\<not> flt_le (fmul (smite_power poor_god ! 0) (Fin 0.1)) (energy poor_god ! 0)
   \<and> hp smite_victim = [Fin 100]
   \<and> hp (snd (divine_smite poor_god smite_victim 0 0)) = [Fin 50]
   \<and> energy (fst (divine_smite poor_god smite_victim 0 0)) = energy poor_god
   \<and> \<not> flt_le (Fin 10) (energy poor_god ! 0)
   \<and> max_hp smite_victim = [Fin 100]
   \<and> max_hp (snd (divine_blessing poor_god smite_victim 0 0)) = [Fin 200]
   \<and> energy (fst (divine_blessing poor_god smite_victim 0 0)) = energy poor_god"
  by (simp add: divine_smite_def divine_blessing_def poor_god_def smite_victim_def
      clampf_def fsub_def ovf_Fin FLT_MAX_def Let_def)

section \<open>The SIR step\<close>

lemma pop_sir_step_body_eq:
  "pop_sir_step_body dt i p =
     (case sir_normalised (population p ! nat i) (susceptible p ! nat i) (infected p ! nat i)
             (recovered p ! nat i) (beta p ! nat i) (gamma_rec p ! nat i) dt of
        None \<Rightarrow> p
      | Some (a, b, c) \<Rightarrow>
          p\<lparr>susceptible := (susceptible p)[nat i := a],
            infected := (infected p)[nat i := b],
            recovered := (recovered p)[nat i := c]\<rparr>)"
  by (simp add: pop_sir_step_body_def sir_normalised_def Let_def split: prod.splits)

lemma pop_sir_step_at:
  assumes "0 \<le> i" and "i < pop_count p"
  shows "(susceptible (pop_sir_step p dt) ! nat i, infected (pop_sir_step p dt) ! nat i,
          recovered (pop_sir_step p dt) ! nat i) =
         (case sir_normalised (population p ! nat i) (susceptible p ! nat i) (infected p ! nat i)
                 (recovered p ! nat i) (beta p ! nat i) (gamma_rec p ! nat i) dt of
            None \<Rightarrow> (susceptible p ! nat i, infected p ! nat i, recovered p ! nat i)
          | Some (a, b, c) \<Rightarrow>
              ((if nat i < length (susceptible p) then a else susceptible p ! nat i),
               (if nat i < length (infected p) then b else infected p ! nat i),
               (if nat i < length (recovered p) then c else recovered p ! nat i)))"
proof -
  let ?view = "\<lambda>p. ((length (susceptible p), length (infected p), length (recovered p)),
                     (susceptible p ! nat i, infected p ! nat i, recovered p ! nat i),
                     (population p ! nat i, beta p ! nat i, gamma_rec p ! nat i))"
  let ?F = "\<lambda>((ls, li, lr), (s, f, r), (n, b, g)).
     ((ls, li, lr),
      (case sir_normalised n s f r b g dt of
         None \<Rightarrow> (s, f, r)
       | Some (a, b, c) \<Rightarrow>
           ((if nat i < ls then a else s), (if nat i < li then b else f),
            (if nat i < lr then c else r))),
      (n, b, g))"
  have "?view (for_from 0 (pop_count p) (pop_sir_step_body dt) p) = ?F (?view p)"
  proof (rule for_from_local [where i = i])
    show "\<And>j s. 0 \<le> j \<Longrightarrow> j \<noteq> i \<Longrightarrow> ?view (pop_sir_step_body dt j s) = ?view s"
      using assms(1) by (simp add: pop_sir_step_body_eq split: option.splits)
    show "\<And>s. ?view (pop_sir_step_body dt i s) = ?F (?view s)"
      by (simp add: pop_sir_step_body_eq list_update_beyond split: option.splits)
  qed (use assms in simp_all)
  then show ?thesis by (simp add: pop_sir_step_def split: option.splits)
qed

lemma sir_fractions:
  assumes "0 \<le> a" and "0 \<le> b" and "0 \<le> c" and "0 < a + b + c" and "a + b + c \<le> FLT_MAX"
  shows "fadd (fadd (Fin a) (Fin b)) (Fin c) = Fin (a + b + c)"
    and "clampf (fdiv (Fin a) (Fin (a + b + c))) (Fin 0) (Fin 1) = Fin (a / (a + b + c))"
    and "clampf (fdiv (Fin b) (Fin (a + b + c))) (Fin 0) (Fin 1) = Fin (b / (a + b + c))"
    and "clampf (fdiv (Fin c) (Fin (a + b + c))) (Fin 0) (Fin 1) = Fin (c / (a + b + c))"
    and "fadd (fadd (Fin (a / (a + b + c))) (Fin (b / (a + b + c)))) (Fin (c / (a + b + c))) = Fin 1"
proof -
  define t where "t = a + b + c"
  have t: "0 < t" "t \<le> FLT_MAX" using assms by (simp_all add: t_def)
  have FM: "1 \<le> FLT_MAX" by (simp add: FLT_MAX_def)
  have "\<bar>a + b\<bar> \<le> FLT_MAX" using assms by linarith
  moreover have "\<bar>a + b + c\<bar> \<le> FLT_MAX" using assms by linarith
  ultimately show "fadd (fadd (Fin a) (Fin b)) (Fin c) = Fin (a + b + c)"
    by (simp add: ovf_Fin)
  have frac: "0 \<le> x / t \<and> x / t \<le> 1 \<and> \<bar>x / t\<bar> \<le> FLT_MAX" if "0 \<le> x" "x \<le> t" for x
  proof -
    have "0 \<le> x / t" "x / t \<le> 1" using that t by simp_all
    then show ?thesis using FM by linarith
  qed
  have cl: "clampf (fdiv (Fin x) (Fin t)) (Fin 0) (Fin 1) = Fin (x / t)" if "0 \<le> x" "x \<le> t" for x
    using frac [OF that] t by (simp add: clampf_def ovf_Fin)
  show "clampf (fdiv (Fin a) (Fin (a + b + c))) (Fin 0) (Fin 1) = Fin (a / (a + b + c))"
    using cl [of a] assms by (simp add: t_def)
  show "clampf (fdiv (Fin b) (Fin (a + b + c))) (Fin 0) (Fin 1) = Fin (b / (a + b + c))"
    using cl [of b] assms by (simp add: t_def)
  show "clampf (fdiv (Fin c) (Fin (a + b + c))) (Fin 0) (Fin 1) = Fin (c / (a + b + c))"
    using cl [of c] assms by (simp add: t_def)
  have one: "a / t + b / t + c / t = 1"
    using t by (simp add: t_def add_divide_distrib [symmetric])
  have ab: "a / t + b / t = (a + b) / t" by (simp add: add_divide_distrib)
  have "0 \<le> (a + b) / t \<and> (a + b) / t \<le> 1 \<and> \<bar>(a + b) / t\<bar> \<le> FLT_MAX"
    using frac [of "a + b"] assms by (simp add: t_def)
  then have "\<bar>a / t + b / t\<bar> \<le> FLT_MAX" using ab by simp
  moreover have "\<bar>a / t + b / t + c / t\<bar> \<le> FLT_MAX" using one FM by simp
  ultimately have "fadd (fadd (Fin (a / t)) (Fin (b / t))) (Fin (c / t)) = Fin (a / t + b / t + c / t)"
    by (simp add: ovf_Fin)
  then show "fadd (fadd (Fin (a / (a + b + c))) (Fin (b / (a + b + c)))) (Fin (c / (a + b + c))) = Fin 1"
    using one by (simp add: t_def)
qed

text \<open>
  What the step stores where the stepped total is positive: each stepped value
  divided by the total, and then clamped to \<open>[0, 1]\<close>.
\<close>

lemma pop_sir_step_stored:
  assumes "0 \<le> i" and "i < pop_count p"
    and "nat i < length (susceptible p)" and "nat i < length (infected p)"
    and "nat i < length (recovered p)"
    and "\<not> flt_le (population p ! nat i) (Fin 0)"
    and "sir_euler (population p ! nat i) (susceptible p ! nat i) (infected p ! nat i)
           (recovered p ! nat i) (beta p ! nat i) (gamma_rec p ! nat i) dt = (s1, f1, r1)"
    and "flt_lt (Fin 0) (fadd (fadd s1 f1) r1)"
  shows "susceptible (pop_sir_step p dt) ! nat i =
           clampf (fdiv s1 (fadd (fadd s1 f1) r1)) (Fin 0) (Fin 1)"
    and "infected (pop_sir_step p dt) ! nat i =
           clampf (fdiv f1 (fadd (fadd s1 f1) r1)) (Fin 0) (Fin 1)"
    and "recovered (pop_sir_step p dt) ! nat i =
           clampf (fdiv r1 (fadd (fadd s1 f1) r1)) (Fin 0) (Fin 1)"
proof -
  have some: "sir_normalised (population p ! nat i) (susceptible p ! nat i) (infected p ! nat i)
        (recovered p ! nat i) (beta p ! nat i) (gamma_rec p ! nat i) dt =
        Some (clampf (fdiv s1 (fadd (fadd s1 f1) r1)) (Fin 0) (Fin 1),
              clampf (fdiv f1 (fadd (fadd s1 f1) r1)) (Fin 0) (Fin 1),
              clampf (fdiv r1 (fadd (fadd s1 f1) r1)) (Fin 0) (Fin 1))"
    using assms(6-8) by (simp add: sir_normalised_def Let_def)
  note at = pop_sir_step_at [OF assms(1,2), of dt]
  show "susceptible (pop_sir_step p dt) ! nat i =
           clampf (fdiv s1 (fadd (fadd s1 f1) r1)) (Fin 0) (Fin 1)"
    and "infected (pop_sir_step p dt) ! nat i =
           clampf (fdiv f1 (fadd (fadd s1 f1) r1)) (Fin 0) (Fin 1)"
    and "recovered (pop_sir_step p dt) ! nat i =
           clampf (fdiv r1 (fadd (fadd s1 f1) r1)) (Fin 0) (Fin 1)"
    using at some assms(3-5) by simp_all
qed

text \<open>
  Where the step keeps the sum at 1. For an index in range: when
  \<^verbatim>\<open>population[i]\<close> is at most 0 the three compartments are left as they were.
  Otherwise the compartments are stepped; when the stepped values are finite and
  non-negative with a positive, representable total, each compartment becomes its
  stepped value divided by the total and the three sum to exactly 1; when the
  stepped total is not positive the compartments are left as they were.
\<close>

lemma pop_sir_step_normalises:
  assumes "0 \<le> i" and "i < pop_count p"
    and "nat i < length (susceptible p)" and "nat i < length (infected p)"
    and "nat i < length (recovered p)"
  shows
    "(flt_le (population p ! nat i) (Fin 0) \<longrightarrow>
        susceptible (pop_sir_step p dt) ! nat i = susceptible p ! nat i
        \<and> infected (pop_sir_step p dt) ! nat i = infected p ! nat i
        \<and> recovered (pop_sir_step p dt) ! nat i = recovered p ! nat i)
     \<and> (\<not> flt_le (population p ! nat i) (Fin 0)
         \<and> sir_euler (population p ! nat i) (susceptible p ! nat i) (infected p ! nat i)
              (recovered p ! nat i) (beta p ! nat i) (gamma_rec p ! nat i) dt = (Fin a, Fin b, Fin c)
         \<and> 0 \<le> a \<and> 0 \<le> b \<and> 0 \<le> c \<and> 0 < a + b + c \<and> a + b + c \<le> FLT_MAX \<longrightarrow>
        susceptible (pop_sir_step p dt) ! nat i = Fin (a / (a + b + c))
        \<and> infected (pop_sir_step p dt) ! nat i = Fin (b / (a + b + c))
        \<and> recovered (pop_sir_step p dt) ! nat i = Fin (c / (a + b + c))
        \<and> fadd (fadd (susceptible (pop_sir_step p dt) ! nat i)
                   (infected (pop_sir_step p dt) ! nat i))
              (recovered (pop_sir_step p dt) ! nat i) = Fin 1)
     \<and> (\<not> flt_le (population p ! nat i) (Fin 0)
         \<and> sir_euler (population p ! nat i) (susceptible p ! nat i) (infected p ! nat i)
              (recovered p ! nat i) (beta p ! nat i) (gamma_rec p ! nat i) dt = (s1, f1, r1)
         \<and> \<not> flt_lt (Fin 0) (fadd (fadd s1 f1) r1) \<longrightarrow>
        susceptible (pop_sir_step p dt) ! nat i = susceptible p ! nat i
        \<and> infected (pop_sir_step p dt) ! nat i = infected p ! nat i
        \<and> recovered (pop_sir_step p dt) ! nat i = recovered p ! nat i)"
proof (intro conjI impI)
  note at = pop_sir_step_at [OF assms(1,2), of dt]
  {
    assume "flt_le (population p ! nat i) (Fin 0)"
    then have none: "sir_normalised (population p ! nat i) (susceptible p ! nat i) (infected p ! nat i)
        (recovered p ! nat i) (beta p ! nat i) (gamma_rec p ! nat i) dt = None"
      by (simp add: sir_normalised_def)
    show "susceptible (pop_sir_step p dt) ! nat i = susceptible p ! nat i"
      and "infected (pop_sir_step p dt) ! nat i = infected p ! nat i"
      and "recovered (pop_sir_step p dt) ! nat i = recovered p ! nat i"
      using at none by simp_all
  }
  {
    assume h: "\<not> flt_le (population p ! nat i) (Fin 0)
         \<and> sir_euler (population p ! nat i) (susceptible p ! nat i) (infected p ! nat i)
              (recovered p ! nat i) (beta p ! nat i) (gamma_rec p ! nat i) dt = (s1, f1, r1)
         \<and> \<not> flt_lt (Fin 0) (fadd (fadd s1 f1) r1)"
    then have none: "sir_normalised (population p ! nat i) (susceptible p ! nat i) (infected p ! nat i)
        (recovered p ! nat i) (beta p ! nat i) (gamma_rec p ! nat i) dt = None"
      by (simp add: sir_normalised_def)
    show "susceptible (pop_sir_step p dt) ! nat i = susceptible p ! nat i"
      and "infected (pop_sir_step p dt) ! nat i = infected p ! nat i"
      and "recovered (pop_sir_step p dt) ! nat i = recovered p ! nat i"
      using at none by simp_all
  }
  {
    assume h: "\<not> flt_le (population p ! nat i) (Fin 0)
         \<and> sir_euler (population p ! nat i) (susceptible p ! nat i) (infected p ! nat i)
              (recovered p ! nat i) (beta p ! nat i) (gamma_rec p ! nat i) dt = (Fin a, Fin b, Fin c)
         \<and> 0 \<le> a \<and> 0 \<le> b \<and> 0 \<le> c \<and> 0 < a + b + c \<and> a + b + c \<le> FLT_MAX"
    then have abc: "0 \<le> a" "0 \<le> b" "0 \<le> c" "0 < a + b + c" "a + b + c \<le> FLT_MAX"
      by simp_all
    note fr = sir_fractions [OF abc]
    have some: "sir_normalised (population p ! nat i) (susceptible p ! nat i) (infected p ! nat i)
        (recovered p ! nat i) (beta p ! nat i) (gamma_rec p ! nat i) dt =
        Some (Fin (a / (a + b + c)), Fin (b / (a + b + c)), Fin (c / (a + b + c)))"
      using h fr(1-4) abc(4) by (simp add: sir_normalised_def del: fadd.simps fdiv.simps)
    show s: "susceptible (pop_sir_step p dt) ! nat i = Fin (a / (a + b + c))"
      and f: "infected (pop_sir_step p dt) ! nat i = Fin (b / (a + b + c))"
      and r: "recovered (pop_sir_step p dt) ! nat i = Fin (c / (a + b + c))"
      using at some assms(3-5) by simp_all
    show "fadd (fadd (susceptible (pop_sir_step p dt) ! nat i)
                   (infected (pop_sir_step p dt) ! nat i))
              (recovered (pop_sir_step p dt) ! nat i) = Fin 1"
      unfolding s f r by (rule fr(5))
  }
qed

lemma pop_sir_step_normalises_example:
  "susceptible (pop_sir_step barren_land (Fin 1)) ! 0 = Fin 0.5
   \<and> infected (pop_sir_step barren_land (Fin 1)) ! 0 = Fin 0.5
   \<and> susceptible (pop_sir_step mild_outbreak (Fin 1)) ! 0 = Fin 0.25
   \<and> infected (pop_sir_step mild_outbreak (Fin 1)) ! 0 = Fin 0.5
   \<and> recovered (pop_sir_step mild_outbreak (Fin 1)) ! 0 = Fin 0.25
   \<and> fadd (fadd (susceptible (pop_sir_step mild_outbreak (Fin 1)) ! 0)
              (infected (pop_sir_step mild_outbreak (Fin 1)) ! 0))
         (recovered (pop_sir_step mild_outbreak (Fin 1)) ! 0) = Fin 1
   \<and> susceptible (pop_sir_step no_disease (Fin 1)) ! 0 = Fin 0
   \<and> recovered (pop_sir_step no_disease (Fin 1)) ! 0 = Fin 0"
proof -
  have skip: "flt_le (population barren_land ! nat 0) (Fin 0)"
    by (simp add: barren_land_def full_land_def)
  have step: "\<not> flt_le (population mild_outbreak ! nat 0) (Fin 0)
      \<and> sir_euler (population mild_outbreak ! nat 0) (susceptible mild_outbreak ! nat 0)
           (infected mild_outbreak ! nat 0) (recovered mild_outbreak ! nat 0)
           (beta mild_outbreak ! nat 0) (gamma_rec mild_outbreak ! nat 0) (Fin 1)
         = (Fin 0.25, Fin 0.5, Fin 0.25)
      \<and> (0::real) \<le> 0.25 \<and> (0::real) \<le> 0.5 \<and> (0::real) \<le> 0.25
      \<and> (0::real) < 0.25 + 0.5 + 0.25 \<and> (0.25::real) + 0.5 + 0.25 \<le> FLT_MAX"
    by (simp add: mild_outbreak_def full_land_def sir_euler_def Let_def fsub_def ovf_Fin FLT_MAX_def)
  have flat: "\<not> flt_le (population no_disease ! nat 0) (Fin 0)
      \<and> sir_euler (population no_disease ! nat 0) (susceptible no_disease ! nat 0)
           (infected no_disease ! nat 0) (recovered no_disease ! nat 0)
           (beta no_disease ! nat 0) (gamma_rec no_disease ! nat 0) (Fin 1)
         = (Fin 0, Fin 0, Fin 0)
      \<and> \<not> flt_lt (Fin 0) (fadd (fadd (Fin 0) (Fin 0)) (Fin 0))"
    by (simp add: no_disease_def full_land_def sir_euler_def Let_def fsub_def ovf_Fin FLT_MAX_def)
  have rng: "(0::int) \<le> 0 \<and> 0 < pop_count barren_land \<and> 0 < pop_count mild_outbreak
      \<and> 0 < pop_count no_disease"
    by (simp add: barren_land_def mild_outbreak_def no_disease_def full_land_def)
  have a: "susceptible (pop_sir_step barren_land (Fin 1)) ! 0 = Fin 0.5
      \<and> infected (pop_sir_step barren_land (Fin 1)) ! 0 = Fin 0.5"
    using pop_sir_step_normalises [where i = 0 and p = barren_land and dt = "Fin 1"
        and a = 0 and b = 0 and c = 0 and ?s1.0 = NaN and ?f1.0 = NaN and ?r1.0 = NaN] skip rng
    by (simp add: barren_land_def full_land_def)
  have b: "susceptible (pop_sir_step mild_outbreak (Fin 1)) ! 0 = Fin 0.25
   \<and> infected (pop_sir_step mild_outbreak (Fin 1)) ! 0 = Fin 0.5
   \<and> recovered (pop_sir_step mild_outbreak (Fin 1)) ! 0 = Fin 0.25
   \<and> fadd (fadd (susceptible (pop_sir_step mild_outbreak (Fin 1)) ! 0)
              (infected (pop_sir_step mild_outbreak (Fin 1)) ! 0))
         (recovered (pop_sir_step mild_outbreak (Fin 1)) ! 0) = Fin 1"
    using pop_sir_step_normalises [where i = 0 and p = mild_outbreak and dt = "Fin 1"
        and a = "0.25" and b = "0.5" and c = "0.25"
        and ?s1.0 = "Fin 0.25" and ?f1.0 = "Fin 0.5" and ?r1.0 = "Fin 0.25"] step rng
    by (simp add: mild_outbreak_def full_land_def ovf_Fin FLT_MAX_def)
  have c: "susceptible (pop_sir_step no_disease (Fin 1)) ! 0 = Fin 0
   \<and> recovered (pop_sir_step no_disease (Fin 1)) ! 0 = Fin 0"
    using pop_sir_step_normalises [where i = 0 and p = no_disease and dt = "Fin 1"
        and a = 0 and b = 0 and c = 0
        and ?s1.0 = "Fin 0" and ?f1.0 = "Fin 0" and ?r1.0 = "Fin 0"] flat rng
    by (simp add: no_disease_def full_land_def)
  from a b c show ?thesis by (simp add: ovf_Fin FLT_MAX_def)
qed

text \<open>
  Claim C2 on compartments that sum to 1, \<open>S = I = 0.5\<close> and \<open>R = 0\<close>, with
  \<open>\<beta> = 4\<close>, \<open>\<gamma> = 0.5\<close>, a population of 1 and \<open>dt = 1\<close>. The comment above
  \<^verbatim>\<open>pop_sir_step\<close> has the fractions kept normalised to 1. The stepped values are
  \<open>-0.5\<close>, \<open>1.25\<close> and \<open>0.25\<close> and their total is 1; the clamp that follows the
  division turns them into 0, 1 and \<open>0.25\<close>, and the stored compartments sum to
  \<open>1.25\<close>.
\<close>

theorem pop_sir_step_sum_exceeds_one:
  "pop_count outbreak = 1 \<and> population outbreak = [Fin 1]
   \<and> susceptible outbreak = [Fin 0.5] \<and> infected outbreak = [Fin 0.5]
   \<and> recovered outbreak = [Fin 0]
   \<and> beta outbreak = [Fin 4] \<and> gamma_rec outbreak = [Fin 0.5]
   \<and> sir_euler (Fin 1) (Fin 0.5) (Fin 0.5) (Fin 0) (Fin 4) (Fin 0.5) (Fin 1)
       = (Fin (- 0.5), Fin 1.25, Fin 0.25)
   \<and> susceptible (pop_sir_step outbreak (Fin 1)) = [Fin 0]
   \<and> infected (pop_sir_step outbreak (Fin 1)) = [Fin 1]
   \<and> recovered (pop_sir_step outbreak (Fin 1)) = [Fin 0.25]
   \<and> fadd (fadd (susceptible (pop_sir_step outbreak (Fin 1)) ! 0)
              (infected (pop_sir_step outbreak (Fin 1)) ! 0))
         (recovered (pop_sir_step outbreak (Fin 1)) ! 0) = Fin 1.25"
  by (simp add: pop_sir_step_def pop_sir_step_body_def sir_euler_def outbreak_def
      full_land_def for_from_step for_from_done Let_def clampf_def fsub_def ovf_Fin FLT_MAX_def)

text \<open>
  Where the stepped total is not positive nothing is stored: compartments that
  are all 0 stay 0.
\<close>

lemma pop_sir_step_zero_total_unchanged:
  "flt_lt (Fin 0) (population no_disease ! 0)
   \<and> susceptible (pop_sir_step no_disease (Fin 1)) = [Fin 0]
   \<and> infected (pop_sir_step no_disease (Fin 1)) = [Fin 0]
   \<and> recovered (pop_sir_step no_disease (Fin 1)) = [Fin 0]"
  by (simp add: pop_sir_step_def pop_sir_step_body_def sir_euler_def no_disease_def
      full_land_def for_from_step for_from_done Let_def clampf_def fsub_def ovf_Fin FLT_MAX_def)

section \<open>Logistic growth\<close>

text \<open>
  Claim C3 at a population group whose carrying capacity is 0 (and whose
  population, which the capacity bounds, is 0): \<^verbatim>\<open>pop_logistic_growth\<close> divides
  \<^verbatim>\<open>n\<close> by \<^verbatim>\<open>k\<close> with no guard, the quotient \<open>0/0\<close> is NaN, and NaN is what the
  call stores in \<^verbatim>\<open>population[0]\<close>.
\<close>

theorem pop_logistic_growth_zero_capacity_nan:
  "pop_count barren_land = 1
   \<and> population barren_land = [Fin 0]
   \<and> carrying_cap barren_land = [Fin 0]
   \<and> growth_rate barren_land = [Fin 0.1]
   \<and> fdiv (population barren_land ! 0) (carrying_cap barren_land ! 0) = NaN
   \<and> population (pop_logistic_growth barren_land (Fin 1)) = [NaN]"
  by (simp add: pop_logistic_growth_def pop_logistic_growth_body_def barren_land_def full_land_def
      for_from_step for_from_done Let_def clampf_def fsub_def inf_of_sign_def ovf_Fin FLT_MAX_def)

text \<open>
  Claim C6 at the same group: after the call the population is NaN, which is
  neither at least 0 nor at most the carrying capacity.
\<close>

theorem pop_logistic_growth_zero_capacity_out_of_range:
  "population (pop_logistic_growth barren_land (Fin 1)) ! 0 = NaN
   \<and> carrying_cap (pop_logistic_growth barren_land (Fin 1)) ! 0 = Fin 0
   \<and> \<not> flt_le (Fin 0) (population (pop_logistic_growth barren_land (Fin 1)) ! 0)
   \<and> \<not> flt_le (population (pop_logistic_growth barren_land (Fin 1)) ! 0)
           (carrying_cap (pop_logistic_growth barren_land (Fin 1)) ! 0)"
  by (simp add: pop_logistic_growth_def pop_logistic_growth_body_def barren_land_def full_land_def
      for_from_step for_from_done Let_def clampf_def fsub_def inf_of_sign_def ovf_Fin FLT_MAX_def)

text \<open>A group at its capacity of 100, with growth rate 0.1, stays at exactly 100 over one tick.\<close>

lemma pop_logistic_growth_at_capacity:
  "population (pop_logistic_growth full_land (Fin 1)) = [Fin 100]"
  by (simp add: pop_logistic_growth_def pop_logistic_growth_body_def full_land_def
      for_from_step for_from_done Let_def clampf_def fsub_def ovf_Fin FLT_MAX_def)

lemma ovf_not_nan: "\<not> is_nan (ovf r)"
  by (simp add: ovf_def)

lemma fadd_Fin_ovf_not_nan: "\<not> is_nan (fadd (Fin a) (ovf b))"
  by (simp add: ovf_def)

lemma clampf_in_range:
  "\<not> is_nan v \<Longrightarrow> 0 \<le> k \<Longrightarrow>
   flt_le (Fin 0) (clampf v (Fin 0) (Fin k)) \<and> flt_le (clampf v (Fin 0) (Fin k)) (Fin k)"
  by (cases v) (auto simp: clampf_def)

lemma pop_logistic_growth_at:
  assumes "0 \<le> i" and "i < pop_count p" and "nat i < length (population p)"
  shows "population (pop_logistic_growth p dt) ! nat i =
           clampf (fadd (population p ! nat i)
                     (fmul (fmul (fmul (growth_rate p ! nat i) (population p ! nat i))
                              (fsub (Fin 1) (fdiv (population p ! nat i) (carrying_cap p ! nat i))))
                        dt))
             (Fin 0) (carrying_cap p ! nat i)"
proof -
  let ?view = "\<lambda>p. (length (population p), population p ! nat i, carrying_cap p ! nat i,
                      growth_rate p ! nat i)"
  let ?F = "\<lambda>(len, n, k, r). (len,
      (if nat i < len
       then clampf (fadd n (fmul (fmul (fmul r n) (fsub (Fin 1) (fdiv n k))) dt)) (Fin 0) k
       else n), k, r)"
  have "?view (for_from 0 (pop_count p) (pop_logistic_growth_body dt) p) = ?F (?view p)"
  proof (rule for_from_local [where i = i])
    show "\<And>j s. 0 \<le> j \<Longrightarrow> j \<noteq> i \<Longrightarrow> ?view (pop_logistic_growth_body dt j s) = ?view s"
      using assms(1) by (simp add: pop_logistic_growth_body_def Let_def)
    show "\<And>s. ?view (pop_logistic_growth_body dt i s) = ?F (?view s)"
      by (simp add: pop_logistic_growth_body_def Let_def list_update_beyond)
  qed (use assms in simp_all)
  then show ?thesis using assms by (simp add: pop_logistic_growth_def)
qed

text \<open>
  Where the capacity is positive the range holds: for finite values with
  \<open>0 \<le> population \<le> carrying_cap\<close>, \<open>0 < carrying_cap\<close>, a representable product
  \<open>r \<cdot> n\<close> and any finite \<open>dt\<close>, the new population lies in \<open>[0, carrying_cap]\<close>.
\<close>

lemma pop_logistic_growth_in_range:
  assumes "0 \<le> i" and "i < pop_count p" and "nat i < length (population p)"
    and n: "population p ! nat i = Fin n" and k: "carrying_cap p ! nat i = Fin k"
    and r: "growth_rate p ! nat i = Fin r"
    and legal: "0 \<le> n" "n \<le> k" "0 < k" "\<bar>r * n\<bar> \<le> FLT_MAX"
  shows "flt_le (Fin 0) (population (pop_logistic_growth p (Fin h)) ! nat i)
         \<and> flt_le (population (pop_logistic_growth p (Fin h)) ! nat i) (Fin k)"
proof -
  have FM: "1 \<le> FLT_MAX" by (simp add: FLT_MAX_def)
  have q: "0 \<le> n / k" "n / k \<le> 1" using legal by simp_all
  have "\<bar>n / k\<bar> \<le> FLT_MAX" using q FM by linarith
  then have quot: "fdiv (Fin n) (Fin k) = Fin (n / k)"
    using legal by (simp add: ovf_Fin)
  have "\<bar>1 - n / k\<bar> \<le> FLT_MAX" using q FM by linarith
  then have compl: "fsub (Fin 1) (Fin (n / k)) = Fin (1 - n / k)"
    by (simp add: fsub_def ovf_Fin)
  have rn: "fmul (Fin r) (Fin n) = Fin (r * n)"
    using legal by (simp add: ovf_Fin)
  have "\<bar>r * n * (1 - n / k)\<bar> = \<bar>r * n\<bar> * \<bar>1 - n / k\<bar>" by (simp add: abs_mult)
  also have "\<dots> \<le> \<bar>r * n\<bar> * 1" using q by (intro mult_left_mono) simp_all
  finally have "\<bar>r * n * (1 - n / k)\<bar> \<le> FLT_MAX" using legal by simp
  then have dn: "fmul (Fin (r * n)) (Fin (1 - n / k)) = Fin (r * n * (1 - n / k))"
    by (simp add: ovf_Fin)
  have "population (pop_logistic_growth p (Fin h)) ! nat i =
          clampf (fadd (Fin n) (ovf (r * n * (1 - n / k) * h))) (Fin 0) (Fin k)"
    using pop_logistic_growth_at [OF assms(1-3)] n k r quot compl rn dn by simp
  then show ?thesis
    using clampf_in_range [OF fadd_Fin_ovf_not_nan, of k] legal by simp
qed

section \<open>Technology cost\<close>

lemma exp_20_bound: "exp (20::real) \<le> 3486784401"
proof -
  have "exp (20::real) = exp (of_nat 20 * 1)" by simp
  also have "\<dots> = exp 1 ^ 20" by (rule exp_of_nat_mult)
  also have "\<dots> \<le> 3 ^ 20" by (rule power_mono) (simp_all add: exp_le)
  finally show ?thesis by simp
qed

lemma tech_exponent_range:
  assumes "flt_le (Fin 0) v"
  shows "\<exists>x. clampf (fmul v (Fin 0.3)) (Fin 0) (Fin 20) = Fin x \<and> 0 \<le> x \<and> x \<le> 20"
proof (cases v)
  case (Fin a)
  then have a: "0 \<le> a" using assms by simp
  define y where "y = a * (3 / 10)"
  have y: "0 \<le> y" using a by (simp add: y_def)
  have FM: "20 < FLT_MAX" by (simp add: FLT_MAX_def)
  have "clampf (ovf y) (Fin 0) (Fin 20) = Fin (min y 20)"
    using y FM by (simp add: clampf_def ovf_def min_def)
  moreover have "fmul v (Fin 0.3) = ovf y" using Fin by (simp add: y_def)
  ultimately show ?thesis using y by (intro exI [of _ "min y 20"]) simp
next
  case PInf
  then show ?thesis by (simp add: clampf_def inf_of_sign_def)
next
  case NInf
  then show ?thesis using assms by simp
next
  case NaN
  then show ?thesis using assms by simp
qed

lemma tech_cost_of_exponent:
  assumes "0 \<le> x" and "x \<le> 20"
  shows "fmul (Fin 100) (expf (Fin x)) = Fin (100 * exp x)"
    and "100 \<le> 100 * exp x" and "100 * exp x \<le> 100 * exp 20" and "100 * exp 20 \<le> FLT_MAX"
proof -
  have le: "exp x \<le> exp 20" using assms by simp
  have ge: "1 \<le> exp x" using assms by simp
  show max: "100 * exp 20 \<le> FLT_MAX"
    using exp_20_bound by (simp add: FLT_MAX_def)
  show "100 \<le> 100 * exp x" using ge by simp
  show "100 * exp x \<le> 100 * exp 20" using le by simp
  have small: "exp x \<le> 3486784401" using le exp_20_bound by (rule order_trans)
  have pos: "0 < exp x" by (rule exp_gt_zero)
  have "\<bar>exp x\<bar> \<le> FLT_MAX" unfolding FLT_MAX_def using small pos by linarith
  moreover have "\<bar>100 * exp x\<bar> \<le> FLT_MAX" unfolding FLT_MAX_def using small pos by linarith
  ultimately show "fmul (Fin 100) (expf (Fin x)) = Fin (100 * exp x)"
    by (simp add: ovf_Fin)
qed

lemma tech_cost_scale_at:
  assumes "0 \<le> i" and "i < tech_count t" and "nat i < length (tech_cost t)"
  shows "tech_cost (tech_cost_scale t) ! nat i =
           fmul (Fin 100) (expf (clampf (fmul (tech_level t ! nat i) (Fin 0.3)) (Fin 0) (Fin 20)))"
proof -
  let ?view = "\<lambda>t. (length (tech_cost t), tech_cost t ! nat i, tech_level t ! nat i)"
  let ?F = "\<lambda>(len, c, l). (len,
      (if nat i < len then fmul (Fin 100) (expf (clampf (fmul l (Fin 0.3)) (Fin 0) (Fin 20))) else c), l)"
  have "?view (for_from 0 (tech_count t) tech_cost_scale_body t) = ?F (?view t)"
  proof (rule for_from_local [where i = i])
    show "\<And>j s. 0 \<le> j \<Longrightarrow> j \<noteq> i \<Longrightarrow> ?view (tech_cost_scale_body j s) = ?view s"
      using assms(1) by (simp add: tech_cost_scale_body_def Let_def)
    show "\<And>s. ?view (tech_cost_scale_body i s) = ?F (?view s)"
      by (simp add: tech_cost_scale_body_def Let_def list_update_beyond)
  qed (use assms in simp_all)
  then show ?thesis using assms by (simp add: tech_cost_scale_def)
qed

text \<open>
  Claim C4. For an index in range whose \<^verbatim>\<open>tech_level\<close> is at least 0 (finite or
  not), \<^verbatim>\<open>tech_cost_scale\<close> writes \<open>100 \<cdot> exp x\<close> where the exponent \<open>x\<close> is
  \<^verbatim>\<open>tech_level * 0.3\<close> clamped into \<open>[0, 20]\<close>; the cost lies between 100 and
  \<open>100 \<cdot> exp 20\<close>, which is below the largest finite single-precision number, so
  it is finite.
\<close>

theorem tech_cost_scale_finite:
  assumes "0 \<le> i" and "i < tech_count t" and "nat i < length (tech_cost t)"
    and "flt_le (Fin 0) (tech_level t ! nat i)"
  shows "is_finite (tech_cost (tech_cost_scale t) ! nat i)
         \<and> tech_cost (tech_cost_scale t) ! nat i =
             fmul (Fin 100) (expf (clampf (fmul (tech_level t ! nat i) (Fin 0.3)) (Fin 0) (Fin 20)))
         \<and> flt_le (clampf (fmul (tech_level t ! nat i) (Fin 0.3)) (Fin 0) (Fin 20)) (Fin 20)
         \<and> flt_le (Fin 100) (tech_cost (tech_cost_scale t) ! nat i)
         \<and> flt_le (tech_cost (tech_cost_scale t) ! nat i) (Fin (100 * exp 20))"
proof -
  obtain x where x: "clampf (fmul (tech_level t ! nat i) (Fin 0.3)) (Fin 0) (Fin 20) = Fin x"
      "0 \<le> x" "x \<le> 20"
    using tech_exponent_range [OF assms(4)] by blast
  have cost: "tech_cost (tech_cost_scale t) ! nat i = Fin (100 * exp x)"
    using tech_cost_scale_at [OF assms(1-3)] x tech_cost_of_exponent(1) [OF x(2,3)] by simp
  have fin: "\<bar>100 * exp x\<bar> \<le> FLT_MAX"
    using tech_cost_of_exponent(2-4) [OF x(2,3)] by linarith
  show ?thesis
    using cost fin x tech_cost_of_exponent(2,3) [OF x(2,3)] tech_cost_scale_at [OF assms(1-3)]
    by simp
qed

theorem tech_cost_scale_finite_witness:
  "tech_level late_civ ! 0 = Fin 1000
   \<and> is_finite (tech_cost (tech_cost_scale late_civ) ! 0)
   \<and> tech_cost (tech_cost_scale late_civ) ! 0 = Fin (100 * exp 20)"
proof -
  have h: "(0::int) \<le> 0 \<and> 0 < tech_count late_civ \<and> nat 0 < length (tech_cost late_civ)
      \<and> flt_le (Fin 0) (tech_level late_civ ! nat 0)"
    by (simp add: late_civ_def)
  have "fmul (Fin 1000) (Fin 0.3) = Fin 300"
    by (simp add: ovf_Fin FLT_MAX_def)
  then have ex: "clampf (fmul (tech_level late_civ ! 0) (Fin 0.3)) (Fin 0) (Fin 20) = Fin 20"
    by (simp add: late_civ_def clampf_def)
  show ?thesis
    using tech_cost_scale_finite [of 0 late_civ] h ex tech_cost_of_exponent(1,4) [of 20]
    by (simp add: late_civ_def del: expf.simps fmul.simps)
qed

section \<open>Trade\<close>

lemma trade_actual_min: "trade_actual (Fin a) (Fin rs) = Fin (min a rs)"
  by (simp add: trade_actual_def min_def)

lemma econ_trade_columns:
  assumes "0 \<le> si" and "si < econ_count seller" and "0 \<le> bi" and "bi < econ_count buyer"
  shows "resource (fst (econ_trade seller si buyer bi amount)) =
           (resource seller)[nat si :=
              clampf (fsub (resource seller ! nat si) (trade_actual amount (resource seller ! nat si)))
                (Fin 0) (max_resource seller ! nat si)]"
    and "resource (snd (econ_trade seller si buyer bi amount)) =
           (resource buyer)[nat bi :=
              clampf (fadd (resource buyer ! nat bi) (trade_actual amount (resource seller ! nat si)))
                (Fin 0) (max_resource buyer ! nat bi)]"
    and "trade_volume (fst (econ_trade seller si buyer bi amount)) =
           (trade_volume seller)[nat si :=
              fadd (trade_volume seller ! nat si) (trade_actual amount (resource seller ! nat si))]"
    and "trade_volume (snd (econ_trade seller si buyer bi amount)) =
           (trade_volume buyer)[nat bi :=
              fadd (trade_volume buyer ! nat bi) (trade_actual amount (resource seller ! nat si))]"
  using assms by (simp_all add: econ_trade_def Let_def)

lemma clampf_inactive:
  "0 \<le> x \<Longrightarrow> x \<le> m \<Longrightarrow> clampf (Fin x) (Fin 0) (Fin m) = Fin x"
  by (simp add: clampf_def)

text \<open>
  Claim C5. For indices in range and finite values, the amount \<^verbatim>\<open>econ_trade\<close> moves
  is \<open>min amount stock\<close> of the seller. The seller's stock becomes the old stock
  less that amount and the buyer's stock the old stock plus that amount, each
  clamped to \<open>[0, max_resource]\<close>; both trade volumes grow by that amount; and when
  neither clamp is active the two new stocks add up to what the two old stocks
  added up to.
\<close>

theorem econ_trade_bounded_and_conserving:
  assumes "0 \<le> si" and "si < econ_count seller" and "0 \<le> bi" and "bi < econ_count buyer"
    and "nat si < length (resource seller)" and "nat si < length (trade_volume seller)"
    and "nat bi < length (resource buyer)" and "nat bi < length (trade_volume buyer)"
    and "resource seller ! nat si = Fin rs" and "resource buyer ! nat bi = Fin rb"
  shows
    "trade_actual (Fin a) (resource seller ! nat si) = Fin (min a rs)
     \<and> min a rs \<le> a \<and> min a rs \<le> rs
     \<and> resource (fst (econ_trade seller si buyer bi (Fin a))) ! nat si =
         clampf (fsub (Fin rs) (Fin (min a rs))) (Fin 0) (max_resource seller ! nat si)
     \<and> resource (snd (econ_trade seller si buyer bi (Fin a))) ! nat bi =
         clampf (fadd (Fin rb) (Fin (min a rs))) (Fin 0) (max_resource buyer ! nat bi)
     \<and> trade_volume (fst (econ_trade seller si buyer bi (Fin a))) ! nat si =
         fadd (trade_volume seller ! nat si) (Fin (min a rs))
     \<and> trade_volume (snd (econ_trade seller si buyer bi (Fin a))) ! nat bi =
         fadd (trade_volume buyer ! nat bi) (Fin (min a rs))
     \<and> (max_resource seller ! nat si = Fin ms \<and> max_resource buyer ! nat bi = Fin mb
          \<and> rs - min a rs \<le> ms \<and> ms \<le> FLT_MAX
          \<and> 0 \<le> rb + min a rs \<and> rb + min a rs \<le> mb \<and> mb \<le> FLT_MAX \<longrightarrow>
        resource (fst (econ_trade seller si buyer bi (Fin a))) ! nat si = Fin (rs - min a rs)
        \<and> resource (snd (econ_trade seller si buyer bi (Fin a))) ! nat bi = Fin (rb + min a rs)
        \<and> (rs - min a rs) + (rb + min a rs) = rs + rb)"
proof -
  note cols = econ_trade_columns [OF assms(1-4), of "Fin a"]
  have act: "trade_actual (Fin a) (resource seller ! nat si) = Fin (min a rs)"
    using assms(9) by (simp add: trade_actual_min)
  have s: "resource (fst (econ_trade seller si buyer bi (Fin a))) ! nat si =
         clampf (fsub (Fin rs) (Fin (min a rs))) (Fin 0) (max_resource seller ! nat si)"
    using cols(1) act assms(5,9) by simp
  have b: "resource (snd (econ_trade seller si buyer bi (Fin a))) ! nat bi =
         clampf (fadd (Fin rb) (Fin (min a rs))) (Fin 0) (max_resource buyer ! nat bi)"
    using cols(2) act assms(7,10) by simp
  have vs: "trade_volume (fst (econ_trade seller si buyer bi (Fin a))) ! nat si =
         fadd (trade_volume seller ! nat si) (Fin (min a rs))"
    using cols(3) act assms(6) by simp
  have vb: "trade_volume (snd (econ_trade seller si buyer bi (Fin a))) ! nat bi =
         fadd (trade_volume buyer ! nat bi) (Fin (min a rs))"
    using cols(4) act assms(8) by simp
  have cons: "max_resource seller ! nat si = Fin ms \<and> max_resource buyer ! nat bi = Fin mb
          \<and> rs - min a rs \<le> ms \<and> ms \<le> FLT_MAX
          \<and> 0 \<le> rb + min a rs \<and> rb + min a rs \<le> mb \<and> mb \<le> FLT_MAX \<longrightarrow>
        resource (fst (econ_trade seller si buyer bi (Fin a))) ! nat si = Fin (rs - min a rs)
        \<and> resource (snd (econ_trade seller si buyer bi (Fin a))) ! nat bi = Fin (rb + min a rs)
        \<and> (rs - min a rs) + (rb + min a rs) = rs + rb"
  proof (intro impI)
    assume h: "max_resource seller ! nat si = Fin ms \<and> max_resource buyer ! nat bi = Fin mb
          \<and> rs - min a rs \<le> ms \<and> ms \<le> FLT_MAX
          \<and> 0 \<le> rb + min a rs \<and> rb + min a rs \<le> mb \<and> mb \<le> FLT_MAX"
    have nonneg: "0 \<le> rs - min a rs" by simp
    have "\<bar>rs - min a rs\<bar> \<le> FLT_MAX" using h nonneg by linarith
    then have sub: "fsub (Fin rs) (Fin (min a rs)) = Fin (rs - min a rs)"
      by (simp add: fsub_def ovf_Fin)
    have "\<bar>rb + min a rs\<bar> \<le> FLT_MAX" using h by linarith
    then have add: "fadd (Fin rb) (Fin (min a rs)) = Fin (rb + min a rs)"
      by (simp add: ovf_Fin)
    show "resource (fst (econ_trade seller si buyer bi (Fin a))) ! nat si = Fin (rs - min a rs)
        \<and> resource (snd (econ_trade seller si buyer bi (Fin a))) ! nat bi = Fin (rb + min a rs)
        \<and> (rs - min a rs) + (rb + min a rs) = rs + rb"
      using s b sub add h nonneg by (simp add: clampf_inactive)
  qed
  from act s b vs vb cons show ?thesis by simp
qed

theorem econ_trade_bounded_and_conserving_witness:
  "trade_actual (Fin 50) (resource granary ! 0) = Fin 30
   \<and> resource (fst (econ_trade granary 0 depot 0 (Fin 50))) ! 0 = Fin 0
   \<and> resource (snd (econ_trade granary 0 depot 0 (Fin 50))) ! 0 = Fin 100
   \<and> trade_volume (fst (econ_trade granary 0 depot 0 (Fin 50))) ! 0 = Fin 30
   \<and> trade_volume (snd (econ_trade granary 0 depot 0 (Fin 50))) ! 0 = Fin 37
   \<and> resource (fst (econ_trade granary 0 depot 0 (Fin 5))) ! 0 = Fin 25
   \<and> resource (snd (econ_trade granary 0 depot 0 (Fin 5))) ! 0 = Fin 95"
proof -
  have h: "(0::int) \<le> 0 \<and> 0 < econ_count granary \<and> 0 < econ_count depot
      \<and> nat 0 < length (resource granary) \<and> nat 0 < length (trade_volume granary)
      \<and> nat 0 < length (resource depot) \<and> nat 0 < length (trade_volume depot)
      \<and> resource granary ! nat 0 = Fin 30 \<and> resource depot ! nat 0 = Fin 90
      \<and> max_resource granary ! nat 0 = Fin 100 \<and> max_resource depot ! nat 0 = Fin 100
      \<and> trade_volume granary ! nat 0 = Fin 0 \<and> trade_volume depot ! nat 0 = Fin 7"
    by (simp add: granary_def depot_def scarce_market_def)
  have big: "trade_actual (Fin 50) (resource granary ! 0) = Fin 30
   \<and> resource (fst (econ_trade granary 0 depot 0 (Fin 50))) ! 0 = Fin 0
   \<and> resource (snd (econ_trade granary 0 depot 0 (Fin 50))) ! 0 = Fin 100
   \<and> trade_volume (fst (econ_trade granary 0 depot 0 (Fin 50))) ! 0 = Fin 30
   \<and> trade_volume (snd (econ_trade granary 0 depot 0 (Fin 50))) ! 0 = Fin 37"
    using econ_trade_bounded_and_conserving [where si = 0 and bi = 0 and seller = granary
        and buyer = depot and rs = 30 and rb = 90 and a = 50 and ms = 100 and mb = 100] h
    by (simp add: clampf_def fsub_def ovf_Fin FLT_MAX_def)
  have small: "resource (fst (econ_trade granary 0 depot 0 (Fin 5))) ! 0 = Fin 25
   \<and> resource (snd (econ_trade granary 0 depot 0 (Fin 5))) ! 0 = Fin 95"
    using econ_trade_bounded_and_conserving [where si = 0 and bi = 0 and seller = granary
        and buyer = depot and rs = 30 and rb = 90 and a = 5 and ms = 100 and mb = 100] h
    by (simp add: clampf_def fsub_def ovf_Fin FLT_MAX_def)
  from big small show ?thesis by simp
qed

section \<open>Market price\<close>

lemma econ_market_price_at:
  assumes "0 \<le> i" and "i < econ_count e" and "nat i < length (price e)"
  shows "price (econ_market_price e) ! nat i =
           clampf (fmul (if flt_lt (Fin 0) (price e ! nat i) then price e ! nat i else Fin 1)
                     (sqrtf (fdiv (demand e ! nat i)
                        (if flt_lt (Fin 1) (supply_level e ! nat i)
                         then supply_level e ! nat i else Fin 1))))
             (Fin 0.01) MAX_PRICE"
proof -
  let ?view = "\<lambda>e. (length (price e), price e ! nat i, demand e ! nat i, supply_level e ! nat i)"
  let ?F = "\<lambda>(len, p, d, s). (len,
      (if nat i < len
       then clampf (fmul (if flt_lt (Fin 0) p then p else Fin 1)
                      (sqrtf (fdiv d (if flt_lt (Fin 1) s then s else Fin 1))))
              (Fin 0.01) MAX_PRICE
       else p), d, s)"
  have "?view (for_from 0 (econ_count e) econ_market_price_body e) = ?F (?view e)"
  proof (rule for_from_local [where i = i])
    show "\<And>j s. 0 \<le> j \<Longrightarrow> j \<noteq> i \<Longrightarrow> ?view (econ_market_price_body j s) = ?view s"
      using assms(1) by (simp add: econ_market_price_body_def Let_def)
    show "\<And>s. ?view (econ_market_price_body i s) = ?F (?view s)"
      by (simp add: econ_market_price_body_def Let_def list_update_beyond)
  qed (use assms in simp_all)
  then show ?thesis using assms by (simp add: econ_market_price_def)
qed

lemma clampf_price_bounds:
  "\<not> is_inf (clampf v (Fin 0.01) MAX_PRICE)
   \<and> (\<not> is_nan v \<longrightarrow> flt_le (Fin 0.01) (clampf v (Fin 0.01) MAX_PRICE)
         \<and> flt_le (clampf v (Fin 0.01) MAX_PRICE) MAX_PRICE)"
  by (cases v) (auto simp: clampf_def MAX_PRICE_def)

lemma clampf_price_spec:
  assumes "flt_le (Fin 0.01) (if flt_lt MAX_PRICE x then MAX_PRICE else x)"
  shows "clampf x (Fin 0.01) MAX_PRICE = (if flt_lt MAX_PRICE x then MAX_PRICE else x)"
  using assms by (cases x) (auto simp: clampf_def MAX_PRICE_def)

lemma clampf_nan_iff: "is_nan (clampf v (Fin lo) (Fin hi)) = is_nan v"
  by (cases v) (auto simp: clampf_def)

lemma sqrt_10_bounds: "3 \<le> sqrt (10::real) \<and> sqrt (10::real) \<le> 4"
proof
  show "3 \<le> sqrt (10::real)" by (rule real_le_rsqrt) simp
  show "sqrt (10::real) \<le> 4" by (rule real_le_lsqrt) simp_all
qed

text \<open>
  Claim C7, as the code has it. For an index in range \<^verbatim>\<open>econ_market_price\<close> stores
  \<open>base \<cdot> sqrt (demand / max (supply, 1))\<close> clamped to \<open>[0.01, MAX_PRICE]\<close>, where
  \<open>base\<close> is the old price when that is positive and 1 otherwise. The stored
  price is never an infinity; unless it is NaN it lies between 0.01 and
  \<open>MAX_PRICE\<close>; and it is the value of the specification's rule whenever the old
  price is positive and that value is at least 0.01.
\<close>

theorem econ_market_price_clamped:
  assumes "0 \<le> i" and "i < econ_count e" and "nat i < length (price e)"
  shows
    "price (econ_market_price e) ! nat i =
       clampf (fmul (if flt_lt (Fin 0) (price e ! nat i) then price e ! nat i else Fin 1)
                 (sqrtf (fdiv (demand e ! nat i)
                    (if flt_lt (Fin 1) (supply_level e ! nat i)
                     then supply_level e ! nat i else Fin 1))))
         (Fin 0.01) MAX_PRICE
     \<and> \<not> is_inf (price (econ_market_price e) ! nat i)
     \<and> (\<not> is_nan (price (econ_market_price e) ! nat i) \<longrightarrow>
          flt_le (Fin 0.01) (price (econ_market_price e) ! nat i)
          \<and> flt_le (price (econ_market_price e) ! nat i) MAX_PRICE)
     \<and> (flt_lt (Fin 0) (price e ! nat i)
          \<and> flt_le (Fin 0.01)
               (spec_market_price (price e ! nat i) (demand e ! nat i) (supply_level e ! nat i)) \<longrightarrow>
          price (econ_market_price e) ! nat i =
            spec_market_price (price e ! nat i) (demand e ! nat i) (supply_level e ! nat i))"
proof -
  define v where "v = fmul (if flt_lt (Fin 0) (price e ! nat i) then price e ! nat i else Fin 1)
                 (sqrtf (fdiv (demand e ! nat i)
                    (if flt_lt (Fin 1) (supply_level e ! nat i)
                     then supply_level e ! nat i else Fin 1)))"
  have at: "price (econ_market_price e) ! nat i = clampf v (Fin 0.01) MAX_PRICE"
    using econ_market_price_at [OF assms] by (simp add: v_def)
  have nan: "is_nan (clampf v (Fin 0.01) MAX_PRICE) = is_nan v"
    by (simp add: MAX_PRICE_def clampf_nan_iff)
  have bounds: "\<not> is_inf (clampf v (Fin 0.01) MAX_PRICE)"
    "\<not> is_nan v \<Longrightarrow> flt_le (Fin 0.01) (clampf v (Fin 0.01) MAX_PRICE)
         \<and> flt_le (clampf v (Fin 0.01) MAX_PRICE) MAX_PRICE"
    using clampf_price_bounds [of v] by simp_all
  have spec: "clampf v (Fin 0.01) MAX_PRICE =
      spec_market_price (price e ! nat i) (demand e ! nat i) (supply_level e ! nat i)"
    if "flt_lt (Fin 0) (price e ! nat i)"
      and "flt_le (Fin 0.01)
             (spec_market_price (price e ! nat i) (demand e ! nat i) (supply_level e ! nat i))"
  proof -
    have sv: "spec_market_price (price e ! nat i) (demand e ! nat i) (supply_level e ! nat i)
        = (if flt_lt MAX_PRICE v then MAX_PRICE else v)"
      using that(1) by (simp add: spec_market_price_def v_def Let_def)
    show ?thesis using clampf_price_spec [of v] that(2) sv by simp
  qed
  show ?thesis
    unfolding at using bounds nan spec by (simp add: v_def)
qed

theorem econ_market_price_clamped_witness:
  "resource scarce_market = [Fin 0] \<and> demand scarce_market = [Fin 10]
   \<and> supply_level scarce_market = [Fin 0] \<and> price scarce_market = [Fin 1]
   \<and> price (econ_market_price scarce_market) ! 0 = Fin (sqrt 10)
   \<and> \<not> is_inf (price (econ_market_price scarce_market) ! 0)
   \<and> flt_le (Fin 0.01) (price (econ_market_price scarce_market) ! 0)
   \<and> flt_le (price (econ_market_price scarce_market) ! 0) MAX_PRICE
   \<and> flt_lt (price (econ_market_price scarce_market) ! 0) MAX_PRICE
   \<and> price (econ_market_price scarce_market) ! 0 = spec_market_price (Fin 1) (Fin 10) (Fin 0)"
proof -
  have h: "(0::int) \<le> 0 \<and> 0 < econ_count scarce_market \<and> nat 0 < length (price scarce_market)"
    by (simp add: scarce_market_def)
  have FM: "\<bar>sqrt (10::real)\<bar> \<le> FLT_MAX"
    using sqrt_10_bounds by (simp add: FLT_MAX_def)
  have v: "fmul (Fin 1) (sqrtf (fdiv (Fin 10) (Fin 1))) = Fin (sqrt 10)"
    using FM by (simp add: ovf_Fin FLT_MAX_def)
  have cl: "clampf (Fin (sqrt 10)) (Fin 0.01) MAX_PRICE = Fin (sqrt 10)"
    using sqrt_10_bounds by (simp add: clampf_def MAX_PRICE_def)
  have sp: "spec_market_price (Fin 1) (Fin 10) (Fin 0) = Fin (sqrt 10)"
    using v sqrt_10_bounds by (simp add: spec_market_price_def MAX_PRICE_def Let_def del: fmul.simps fdiv.simps sqrtf.simps)
  have val: "price (econ_market_price scarce_market) ! 0 = Fin (sqrt 10)"
    using econ_market_price_clamped [of 0 scarce_market] h v cl
    by (simp add: scarce_market_def del: fmul.simps fdiv.simps sqrtf.simps)
  show ?thesis
    unfolding val sp using sqrt_10_bounds by (simp add: scarce_market_def MAX_PRICE_def)
qed

text \<open>
  Claim C7 as stated fails where the rule's value falls below the floor of 0.01,
  which the claim does not name: with no demand the rule gives 0 and the code
  stores 0.01.
\<close>

theorem econ_market_price_floor_differs:
  "demand idle_market = [Fin 0] \<and> supply_level idle_market = [Fin 0] \<and> price idle_market = [Fin 1]
   \<and> price (econ_market_price idle_market) = [Fin 0.01]
   \<and> spec_market_price (price idle_market ! 0) (demand idle_market ! 0)
        (supply_level idle_market ! 0) = Fin 0"
  by (simp add: econ_market_price_def econ_market_price_body_def spec_market_price_def
      idle_market_def scarce_market_def for_from_step for_from_done Let_def clampf_def
      MAX_PRICE_def ovf_Fin FLT_MAX_def)

section \<open>Scalar operations on an index out of range\<close>

text \<open>
  Claim C8. Every operation of the library that takes an explicit index returns
  each container it may write exactly as it received it when an index is outside
  \<open>[0, count)\<close>, the index \<open>count\<close> itself included; an operation on two indices
  does so when either is out of range. The four operations with an output
  parameter then write its default: 0 for \<^verbatim>\<open>hit_out\<close> and for \<^verbatim>\<open>can_cast\<close>, 1.0 for
  the critical multiplier.
\<close>

theorem scalar_ops_out_of_range_noop:
  "(i < 0 \<or> pop_count p \<le> i \<or> pop_count p' \<le> i \<longrightarrow> pop_migration p p' i x y = (p, p'))
   \<and> (i < 0 \<or> faith_count f \<le> i \<longrightarrow> faith_ritual_cost f i x = f)
   \<and> ((i < 0 \<or> combat_count c \<le> i) \<or> (j < 0 \<or> combat_count c \<le> j) \<longrightarrow>
         combat_apply_damage c i j x = c)
   \<and> (i < 0 \<or> combat_count c \<le> i \<longrightarrow> combat_hit_roll c i = 0)
   \<and> (i < 0 \<or> combat_count c \<le> i \<longrightarrow> combat_crit_roll c i = Fin 1)
   \<and> (i < 0 \<or> combat_count c \<le> i \<longrightarrow> combat_morale_boost c i x = c)
   \<and> (i < 0 \<or> combat_count c \<le> i \<longrightarrow> combat_siege_damage c i x y = c)
   \<and> ((i < 0 \<or> econ_count e \<le> i) \<or> (j < 0 \<or> econ_count e' \<le> j) \<longrightarrow>
         econ_trade e i e' j x = (e, e'))
   \<and> (i < 0 \<or> move_count m \<le> i \<longrightarrow> move_seek_target bits_of float_of m i x y z = m)
   \<and> (i < 0 \<or> move_count m \<le> i \<longrightarrow> move_flee_target bits_of float_of m i x y z = m)
   \<and> (i < 0 \<or> move_count m \<le> i \<longrightarrow> move_astar_heuristic m i x y = m)
   \<and> (i < 0 \<or> move_count m \<le> i \<longrightarrow> move_arrival_brake m i x y z = m)
   \<and> (i < 0 \<or> divine_count d \<le> i \<longrightarrow> divine_meteor_cost d i = (d, 0))
   \<and> (i < 0 \<or> divine_count d \<le> i \<longrightarrow> divine_terraform_cost d i tiles = (d, 0))
   \<and> ((i < 0 \<or> divine_count d \<le> i) \<or> (j < 0 \<or> combat_count c \<le> j) \<longrightarrow>
         divine_heal_apply d c i j = (d, c))
   \<and> ((i < 0 \<or> divine_count d \<le> i) \<or> (j < 0 \<or> combat_count c \<le> j) \<longrightarrow>
         divine_smite d c i j = (d, c))
   \<and> ((i < 0 \<or> divine_count d \<le> i) \<or> (j < 0 \<or> combat_count c \<le> j) \<longrightarrow>
         divine_blessing d c i j = (d, c))
   \<and> ((i < 0 \<or> psych_count ps \<le> i) \<or> (j < 0 \<or> combat_count c \<le> j) \<longrightarrow>
         psych_threat_assess ps c i j = ps)
   \<and> (i < 0 \<or> psych_count ps \<le> i \<longrightarrow> psych_loyalty_shift ps i x = ps)
   \<and> (i < 0 \<or> psych_count ps \<le> i \<longrightarrow> psych_aggression_trigger ps i x = ps)
   \<and> (i < 0 \<or> tech_count t \<le> i \<longrightarrow> tech_golden_age_trigger t i x = t)
   \<and> ((i < 0 \<or> tech_count t \<le> i) \<or> (j < 0 \<or> tech_count t' \<le> j) \<longrightarrow>
         tech_diffusion t t' i j x y = t')
   \<and> (i < 0 \<or> engine_count g \<le> i \<longrightarrow> engine_chaos_event g i = g)
   \<and> (i < 0 \<or> engine_count g \<le> i \<longrightarrow> engine_entropy_reset g i = g)
   \<and> (i < 0 \<or> engine_count g \<le> i \<longrightarrow> engine_determinism_seed g i seed = g)"
proof -
  have 1: "i < 0 \<or> pop_count p \<le> i \<or> pop_count p' \<le> i \<longrightarrow> pop_migration p p' i x y = (p, p')"
    by (auto simp: pop_migration_def)
  have 2: "i < 0 \<or> faith_count f \<le> i \<longrightarrow> faith_ritual_cost f i x = f"
    by (auto simp: faith_ritual_cost_def)
  have 3: "(i < 0 \<or> combat_count c \<le> i) \<or> (j < 0 \<or> combat_count c \<le> j) \<longrightarrow>
         combat_apply_damage c i j x = c"
    by (auto simp: combat_apply_damage_def)
  have 4: "i < 0 \<or> combat_count c \<le> i \<longrightarrow> combat_hit_roll c i = 0"
    by (auto simp: combat_hit_roll_def)
  have 5: "i < 0 \<or> combat_count c \<le> i \<longrightarrow> combat_crit_roll c i = Fin 1"
    by (auto simp: combat_crit_roll_def)
  have 6: "i < 0 \<or> combat_count c \<le> i \<longrightarrow> combat_morale_boost c i x = c"
    by (auto simp: combat_morale_boost_def)
  have 7: "i < 0 \<or> combat_count c \<le> i \<longrightarrow> combat_siege_damage c i x y = c"
    by (auto simp: combat_siege_damage_def)
  have 8: "(i < 0 \<or> econ_count e \<le> i) \<or> (j < 0 \<or> econ_count e' \<le> j) \<longrightarrow>
         econ_trade e i e' j x = (e, e')"
    by (auto simp: econ_trade_def)
  have 9: "i < 0 \<or> move_count m \<le> i \<longrightarrow> move_seek_target bits_of float_of m i x y z = m"
    for z by (auto simp: move_seek_target_def)
  have 10: "i < 0 \<or> move_count m \<le> i \<longrightarrow> move_flee_target bits_of float_of m i x y z = m"
    using 9 [of "fneg z"] by (simp add: move_flee_target_def)
  have 11: "i < 0 \<or> move_count m \<le> i \<longrightarrow> move_astar_heuristic m i x y = m"
    by (auto simp: move_astar_heuristic_def)
  have 12: "i < 0 \<or> move_count m \<le> i \<longrightarrow> move_arrival_brake m i x y z = m"
    by (auto simp: move_arrival_brake_def)
  have 13: "i < 0 \<or> divine_count d \<le> i \<longrightarrow> divine_meteor_cost d i = (d, 0)"
    by (auto simp: divine_meteor_cost_def)
  have 14: "i < 0 \<or> divine_count d \<le> i \<longrightarrow> divine_terraform_cost d i tiles = (d, 0)"
    by (auto simp: divine_terraform_cost_def)
  have 15: "(i < 0 \<or> divine_count d \<le> i) \<or> (j < 0 \<or> combat_count c \<le> j) \<longrightarrow>
         divine_heal_apply d c i j = (d, c)"
    by (auto simp: divine_heal_apply_def)
  have 16: "(i < 0 \<or> divine_count d \<le> i) \<or> (j < 0 \<or> combat_count c \<le> j) \<longrightarrow>
         divine_smite d c i j = (d, c)"
    by (auto simp: divine_smite_def)
  have 17: "(i < 0 \<or> divine_count d \<le> i) \<or> (j < 0 \<or> combat_count c \<le> j) \<longrightarrow>
         divine_blessing d c i j = (d, c)"
    by (auto simp: divine_blessing_def)
  have 18: "(i < 0 \<or> psych_count ps \<le> i) \<or> (j < 0 \<or> combat_count c \<le> j) \<longrightarrow>
         psych_threat_assess ps c i j = ps"
    by (auto simp: psych_threat_assess_def)
  have 19: "i < 0 \<or> psych_count ps \<le> i \<longrightarrow> psych_loyalty_shift ps i x = ps"
    by (auto simp: psych_loyalty_shift_def)
  have 20: "i < 0 \<or> psych_count ps \<le> i \<longrightarrow> psych_aggression_trigger ps i x = ps"
    by (auto simp: psych_aggression_trigger_def)
  have 21: "i < 0 \<or> tech_count t \<le> i \<longrightarrow> tech_golden_age_trigger t i x = t"
    by (auto simp: tech_golden_age_trigger_def)
  have 22: "(i < 0 \<or> tech_count t \<le> i) \<or> (j < 0 \<or> tech_count t' \<le> j) \<longrightarrow>
         tech_diffusion t t' i j x y = t'"
    by (auto simp: tech_diffusion_def)
  have 23: "i < 0 \<or> engine_count g \<le> i \<longrightarrow> engine_chaos_event g i = g"
    by (auto simp: engine_chaos_event_def)
  have 24: "i < 0 \<or> engine_count g \<le> i \<longrightarrow> engine_entropy_reset g i = g"
    by (auto simp: engine_entropy_reset_def)
  have 25: "i < 0 \<or> engine_count g \<le> i \<longrightarrow> engine_determinism_seed g i seed = g"
    by (auto simp: engine_determinism_seed_def)
  from 1 2 3 4 5 6 7 8 9 10 11 12 13 14 15 16 17 18 19 20 21 22 23 24 25
  show ?thesis by (intro conjI)
qed

theorem scalar_ops_out_of_range_noop_witness:
  "pop_migration full_land full_land 1 (Fin 0.5) (Fin 1) = (full_land, full_land)
   \<and> faith_ritual_cost shrine 1 (Fin 0.5) = shrine
   \<and> combat_apply_damage smite_victim 1 0 (Fin 0.5) = smite_victim
   \<and> combat_hit_roll smite_victim 1 = 0
   \<and> combat_crit_roll smite_victim 1 = Fin 1
   \<and> combat_morale_boost smite_victim 1 (Fin 0.5) = smite_victim
   \<and> combat_siege_damage smite_victim 1 (Fin 0.5) (Fin 1) = smite_victim
   \<and> econ_trade scarce_market 1 scarce_market 0 (Fin 0.5) = (scarce_market, scarce_market)
   \<and> move_seek_target (\<lambda>v. 0) (\<lambda>w. Fin 1) walker 1 (Fin 0.5) (Fin 1) (Fin 2) = walker
   \<and> move_flee_target (\<lambda>v. 0) (\<lambda>w. Fin 1) walker 1 (Fin 0.5) (Fin 1) (Fin 2) = walker
   \<and> move_astar_heuristic walker 1 (Fin 0.5) (Fin 1) = walker
   \<and> move_arrival_brake walker 1 (Fin 0.5) (Fin 1) (Fin 2) = walker
   \<and> divine_meteor_cost rich_god 1 = (rich_god, 0)
   \<and> divine_terraform_cost rich_god 1 3 = (rich_god, 0)
   \<and> divine_heal_apply rich_god smite_victim 1 0 = (rich_god, smite_victim)
   \<and> divine_smite rich_god smite_victim 1 0 = (rich_god, smite_victim)
   \<and> divine_blessing rich_god smite_victim 1 0 = (rich_god, smite_victim)
   \<and> psych_threat_assess villager smite_victim 1 0 = villager
   \<and> psych_loyalty_shift villager 1 (Fin 0.5) = villager
   \<and> psych_aggression_trigger villager 1 (Fin 0.5) = villager
   \<and> tech_golden_age_trigger late_civ 1 (Fin 0.5) = late_civ
   \<and> tech_diffusion late_civ late_civ 1 0 (Fin 0.5) (Fin 1) = late_civ
   \<and> engine_chaos_event calm_realm 1 = calm_realm
   \<and> engine_entropy_reset calm_realm 1 = calm_realm
   \<and> engine_determinism_seed calm_realm 1 7 = calm_realm"
proof -
  have counts: "pop_count full_land = 1 \<and> faith_count shrine = 1 \<and> combat_count smite_victim = 1
      \<and> econ_count scarce_market = 1 \<and> move_count walker = 1 \<and> divine_count rich_god = 1
      \<and> psych_count villager = 1 \<and> tech_count late_civ = 1 \<and> engine_count calm_realm = 1"
    by (simp add: full_land_def shrine_def smite_victim_def scarce_market_def walker_def
        rich_god_def poor_god_def villager_def late_civ_def calm_realm_def)
  show ?thesis
    using counts
      scalar_ops_out_of_range_noop [where i = 1 and j = 0 and p = full_land and p' = full_land
        and f = shrine and c = smite_victim and e = scarce_market and e' = scarce_market
        and m = walker and d = rich_god and ps = villager and t = late_civ and t' = late_civ
        and g = calm_realm and x = "Fin 0.5" and y = "Fin 1" and z = "Fin 2" and tiles = 3
        and seed = 7 and bits_of = "\<lambda>v. 0" and float_of = "\<lambda>w. Fin 1"]
    by simp
qed

section \<open>Stability\<close>

lemma engine_stability_update_at:
  assumes "0 \<le> i" and "i < engine_count e" and "nat i < length (stability e)"
    and "engine_stability_update (Some p) e t = Inr e'"
  shows "stability e' ! nat i =
           stability_combine (fsub (Fin 1) (entropy e ! nat i))
             (stability_tech_norm t i) (stability_pop_pressure p i)"
proof -
  let ?view = "\<lambda>e. (length (stability e), stability e ! nat i, entropy e ! nat i)"
  let ?F = "\<lambda>(len, s, x). (len,
      (if nat i < len
       then stability_combine (fsub (Fin 1) x) (stability_tech_norm t i) (stability_pop_pressure p i)
       else s), x)"
  have "?view (for_from 0 (engine_count e) (engine_stability_update_body p t) e) = ?F (?view e)"
  proof (rule for_from_local [where i = i])
    show "\<And>j s. 0 \<le> j \<Longrightarrow> j \<noteq> i \<Longrightarrow> ?view (engine_stability_update_body p t j s) = ?view s"
      using assms(1) by (simp add: engine_stability_update_body_def Let_def)
    show "\<And>s. ?view (engine_stability_update_body p t i s) = ?F (?view s)"
      by (simp add: engine_stability_update_body_def Let_def list_update_beyond)
  qed (use assms in simp_all)
  moreover have "e' = for_from 0 (engine_count e) (engine_stability_update_body p t) e"
    using assms(4) by (simp add: engine_stability_update_def)
  ultimately show ?thesis using assms(3) by simp
qed

lemma entropy_complement_unclamped:
  assumes "0 \<le> x" and "x \<le> 1"
  shows "clampf (fsub (Fin 1) (Fin x)) (Fin 0) (Fin 1) = fsub (Fin 1) (Fin x)"
proof -
  have "\<bar>1 - x\<bar> \<le> FLT_MAX" using assms by (simp add: FLT_MAX_def)
  then have "fsub (Fin 1) (Fin x) = Fin (1 - x)" by (simp add: fsub_def ovf_Fin)
  then show ?thesis using assms by (simp add: clampf_def)
qed

text \<open>
  A value clamped to \<open>[0, 1]\<close> is NaN or a number of that interval; so are the
  defaults 0.5 and 0 that stand in for a row the technology or the population
  container does not have.
\<close>

lemma clampf_unit_cases:
  "clampf v (Fin 0) (Fin 1) = NaN \<or> (\<exists>y. clampf v (Fin 0) (Fin 1) = Fin y \<and> 0 \<le> y \<and> y \<le> 1)"
  by (cases v) (auto simp: clampf_def)

lemma stability_tech_norm_cases:
  "stability_tech_norm t i = NaN \<or> (\<exists>y. stability_tech_norm t i = Fin y \<and> 0 \<le> y \<and> y \<le> 1)"
proof (cases "i < tech_count t")
  case True
  then show ?thesis
    using clampf_unit_cases [of "fdiv (tech_level t ! nat i) (Fin 50)"]
    by (simp add: stability_tech_norm_def)
next
  case False
  then have "stability_tech_norm t i = Fin (1 / 2) \<and> (0::real) \<le> 1 / 2 \<and> (1 / 2 :: real) \<le> 1"
    by (simp add: stability_tech_norm_def)
  then show ?thesis by blast
qed

lemma stability_pop_pressure_cases:
  "stability_pop_pressure p i = NaN
   \<or> (\<exists>y. stability_pop_pressure p i = Fin y \<and> 0 \<le> y \<and> y \<le> 1)"
proof (cases "i < pop_count p")
  case True
  then show ?thesis
    using clampf_unit_cases [of "fdiv (population p ! nat i) (fadd (carrying_cap p ! nat i) (Fin 1))"]
    by (simp add: stability_pop_pressure_def)
next
  case False
  then have "stability_pop_pressure p i = Fin 0 \<and> (0::real) \<le> 0 \<and> (0::real) \<le> 1"
    by (simp add: stability_pop_pressure_def)
  then show ?thesis by blast
qed

lemma tech_factor_cases:
  assumes "tn = NaN \<or> (\<exists>y. tn = Fin y \<and> 0 \<le> y \<and> y \<le> 1)"
  shows "fadd (Fin 0.5) (fmul (Fin 0.5) tn) = NaN
         \<or> (\<exists>b. fadd (Fin 0.5) (fmul (Fin 0.5) tn) = Fin b \<and> 0 < b \<and> b \<le> 1)"
proof -
  have FM: "1 \<le> FLT_MAX" by (simp add: FLT_MAX_def)
  show ?thesis
  proof (rule disjE [OF assms])
    assume "tn = NaN" then show ?thesis by simp
  next
    assume "\<exists>y. tn = Fin y \<and> 0 \<le> y \<and> y \<le> 1"
    then obtain y where y: "tn = Fin y" "0 \<le> y" "y \<le> 1" by blast
    have a: "\<bar>1 / 2 * y\<bar> \<le> FLT_MAX" using y FM by simp
    have b: "\<bar>1 / 2 + 1 / 2 * y\<bar> \<le> FLT_MAX" using y FM by simp
    have "fadd (Fin 0.5) (fmul (Fin 0.5) tn) = Fin (1 / 2 + 1 / 2 * y)"
      using y a b by (simp add: ovf_Fin)
    then show ?thesis using y by simp
  qed
qed

lemma pressure_factor_cases:
  assumes "pp = NaN \<or> (\<exists>y. pp = Fin y \<and> 0 \<le> y \<and> y \<le> 1)"
  shows "fsub (Fin 1) (fmul (Fin 0.5) pp) = NaN
         \<or> (\<exists>c. fsub (Fin 1) (fmul (Fin 0.5) pp) = Fin c \<and> 0 < c \<and> c \<le> 1)"
proof -
  have FM: "1 \<le> FLT_MAX" by (simp add: FLT_MAX_def)
  show ?thesis
  proof (rule disjE [OF assms])
    assume "pp = NaN" then show ?thesis by (simp add: fsub_def)
  next
    assume "\<exists>y. pp = Fin y \<and> 0 \<le> y \<and> y \<le> 1"
    then obtain y where y: "pp = Fin y" "0 \<le> y" "y \<le> 1" by blast
    have a: "\<bar>1 / 2 * y\<bar> \<le> FLT_MAX" using y FM by simp
    have b: "\<bar>1 - 1 / 2 * y\<bar> \<le> FLT_MAX" using y FM by simp
    have "fsub (Fin 1) (fmul (Fin 0.5) pp) = Fin (1 - 1 / 2 * y)"
      using y a b by (simp add: fsub_def ovf_Fin)
    then show ?thesis using y by simp
  qed
qed


text \<open>
  With an entropy of at least 0 the complement is at most 1, and where it is
  negative the product is negative (or NaN) with or without a clamp on the
  complement: clamping the complement first does not change the stability.
\<close>

lemma stability_combine_complement:
  assumes x: "flt_le (Fin 0) x"
    and tn: "tn = NaN \<or> (\<exists>y. tn = Fin y \<and> 0 \<le> y \<and> y \<le> 1)"
    and pp: "pp = NaN \<or> (\<exists>y. pp = Fin y \<and> 0 \<le> y \<and> y \<le> 1)"
  shows "stability_combine (fsub (Fin 1) x) tn pp =
         stability_combine (clampf (fsub (Fin 1) x) (Fin 0) (Fin 1)) tn pp"
proof -
  define B where "B = fadd (Fin 0.5) (fmul (Fin 0.5) tn)"
  define C where "C = fsub (Fin 1) (fmul (Fin 0.5) pp)"
  have B: "B = NaN \<or> (\<exists>b. B = Fin b \<and> 0 < b \<and> b \<le> 1)"
    unfolding B_def by (rule tech_factor_cases [OF tn])
  have C: "C = NaN \<or> (\<exists>c. C = Fin c \<and> 0 < c \<and> c \<le> 1)"
    unfolding C_def by (rule pressure_factor_cases [OF pp])
  have comb: "stability_combine a tn pp = clampf (fmul (fmul a B) C) (Fin 0) (Fin 1)" for a
    by (simp add: stability_combine_def B_def C_def)
  have neg: "clampf (fmul (fmul a B) C) (Fin 0) (Fin 1) = clampf (fmul (fmul (Fin 0) B) C) (Fin 0) (Fin 1)"
    if a: "a = NInf \<or> (\<exists>q. a = Fin q \<and> q < 0)" for a
  proof (rule disjE [OF B])
    assume "B = NaN"
    then show ?thesis using a by (cases a) simp_all
  next
    assume "\<exists>b. B = Fin b \<and> 0 < b \<and> b \<le> 1"
    then obtain b where b: "B = Fin b" "0 < b" "b \<le> 1" by blast
    have ab: "fmul a B = NInf \<or> (\<exists>q. fmul a B = Fin q \<and> q < 0)"
    proof (rule disjE [OF a])
      assume "a = NInf" then show ?thesis using b by (simp add: inf_of_sign_def)
    next
      assume "\<exists>q. a = Fin q \<and> q < 0"
      then obtain q where q: "a = Fin q" "q < 0" by blast
      have "q * b < 0" using q b by (simp add: mult_neg_pos)
      then show ?thesis using q b by (simp add: ovf_def FLT_MAX_def)
    qed
    have zb: "fmul (Fin 0) B = Fin 0" using b by (simp add: ovf_def FLT_MAX_def)
    show ?thesis
    proof (rule disjE [OF C])
      assume "C = NaN"
      then show ?thesis using ab zb by (cases "fmul a B") simp_all
    next
      assume "\<exists>c. C = Fin c \<and> 0 < c \<and> c \<le> 1"
      then obtain c where c: "C = Fin c" "0 < c" "c \<le> 1" by blast
      have abc: "fmul (fmul a B) C = NInf \<or> (\<exists>q. fmul (fmul a B) C = Fin q \<and> q < 0)"
      proof (rule disjE [OF ab])
        assume "fmul a B = NInf" then show ?thesis using c by (simp add: inf_of_sign_def)
      next
        assume "\<exists>q. fmul a B = Fin q \<and> q < 0"
        then obtain q where q: "fmul a B = Fin q" "q < 0" by blast
        have "q * c < 0" using q c by (simp add: mult_neg_pos)
        then show ?thesis using q c by (simp add: ovf_def FLT_MAX_def)
      qed
      have l: "clampf (fmul (fmul a B) C) (Fin 0) (Fin 1) = Fin 0"
        using abc by (auto simp: clampf_def)
      have r: "clampf (fmul (fmul (Fin 0) B) C) (Fin 0) (Fin 1) = Fin 0"
        using zb c by (simp add: clampf_def ovf_def FLT_MAX_def)
      show ?thesis using l r by simp
    qed
  qed
  show ?thesis
  proof (cases x)
    case (Fin e)
    then have e: "0 \<le> e" using x by simp
    show ?thesis
    proof (cases "e \<le> 1")
      case True
      then show ?thesis using Fin e by (simp add: entropy_complement_unclamped)
    next
      case False
      then have lt: "1 - e < 0" by simp
      have a: "fsub (Fin 1) x = NInf \<or> (\<exists>q. fsub (Fin 1) x = Fin q \<and> q < 0)"
        using Fin lt by (simp add: fsub_def ovf_def FLT_MAX_def)
      then have cl: "clampf (fsub (Fin 1) x) (Fin 0) (Fin 1) = Fin 0"
        by (auto simp: clampf_def)
      show ?thesis unfolding comb cl by (rule neg [OF a])
    qed
  next
    case PInf
    then have a: "fsub (Fin 1) x = NInf \<or> (\<exists>q. fsub (Fin 1) x = Fin q \<and> q < 0)"
      by (simp add: fsub_def)
    then have cl: "clampf (fsub (Fin 1) x) (Fin 0) (Fin 1) = Fin 0"
      by (auto simp: clampf_def)
    show ?thesis unfolding comb cl by (rule neg [OF a])
  next
    case NInf
    then show ?thesis using x by simp
  next
    case NaN
    then show ?thesis using x by simp
  qed
qed


text \<open>
  Where \<^verbatim>\<open>p\<close> denotes a population container, as the declaration in
  \<^verbatim>\<open>simulation.h\<close> has it, the body computes what the specification describes. For
  every index in range of the engine container whose entropy is at least 0, the
  new stability is the clamped product of three factors built from the entropy
  complement, from \<^verbatim>\<open>tech_norm\<close> and from \<^verbatim>\<open>pop_pressure\<close>, each of the three
  clamped to \<open>[0, 1]\<close> (0.5 and 0 stand in for a row that the technology or the
  population container does not have).
\<close>

lemma engine_stability_update_three_factors:
  assumes "0 \<le> i" and "i < engine_count e" and "nat i < length (stability e)"
    and "engine_stability_update (Some p) e t = Inr e'"
    and "flt_le (Fin 0) (entropy e ! nat i)"
  shows "stability e' ! nat i =
           stability_combine (clampf (fsub (Fin 1) (entropy e ! nat i)) (Fin 0) (Fin 1))
             (stability_tech_norm t i) (stability_pop_pressure p i)"
    and "i < tech_count t \<Longrightarrow> i < pop_count p \<Longrightarrow>
         stability e' ! nat i =
           spec_stability (entropy e ! nat i) (tech_level t ! nat i)
             (population p ! nat i) (carrying_cap p ! nat i)"
proof -
  show three: "stability e' ! nat i =
           stability_combine (clampf (fsub (Fin 1) (entropy e ! nat i)) (Fin 0) (Fin 1))
             (stability_tech_norm t i) (stability_pop_pressure p i)"
    using engine_stability_update_at [OF assms(1-4)]
      stability_combine_complement [OF assms(5) stability_tech_norm_cases stability_pop_pressure_cases]
    by simp
  show "stability e' ! nat i =
           spec_stability (entropy e ! nat i) (tech_level t ! nat i)
             (population p ! nat i) (carrying_cap p ! nat i)"
    if "i < tech_count t" and "i < pop_count p"
    using three that
    by (simp add: spec_stability_def stability_tech_norm_def stability_pop_pressure_def)
qed


section \<open>Miracle rolls\<close>

lemma faith_miracle_check_body_other:
  "0 \<le> i \<Longrightarrow> 0 \<le> j \<Longrightarrow> j \<noteq> i \<Longrightarrow>
   (length (faith_miracle_check_body f j out), faith_miracle_check_body f j out ! nat i)
     = (length out, out ! nat i)"
  by (simp add: faith_miracle_check_body_def Let_def)

lemma faith_miracle_check_body_here:
  "(length (faith_miracle_check_body f i out), faith_miracle_check_body f i out ! nat i)
     = (\<lambda>(len, x). (len, if nat i < len
          then (if flt_lt (fst (lcg_float (word_of_int (i + 1) * 2654435761)))
                     (fmul (miracle_chance f ! nat i) (divine_favor f ! nat i)) then 1 else 0)
          else x)) (length out, out ! nat i)"
  by (cases "nat i < length out") (simp_all add: faith_miracle_check_body_def Let_def list_update_beyond)

lemma faith_miracle_check_at:
  assumes "0 \<le> i" and "i < faith_count f" and "nat i < length out"
  shows "faith_miracle_check tick f out ! nat i =
     (if flt_lt (fst (lcg_float (word_of_int (i + 1) * 2654435761)))
           (fmul (miracle_chance f ! nat i) (divine_favor f ! nat i)) then 1 else 0)"
proof -
  have "(\<lambda>out. (length out, out ! nat i)) (for_from 0 (faith_count f) (faith_miracle_check_body f) out)
      = (\<lambda>(len, x). (len, if nat i < len
          then (if flt_lt (fst (lcg_float (word_of_int (i + 1) * 2654435761)))
                     (fmul (miracle_chance f ! nat i) (divine_favor f ! nat i)) then 1 else 0)
          else x)) ((\<lambda>out. (length out, out ! nat i)) out)"
  proof (rule for_from_local [where i = i])
    show "\<And>j s. 0 \<le> j \<Longrightarrow> j \<noteq> i \<Longrightarrow>
       (length (faith_miracle_check_body f j s), faith_miracle_check_body f j s ! nat i) = (length s, s ! nat i)"
      using assms(1) by (rule faith_miracle_check_body_other)
    show "\<And>s. (length (faith_miracle_check_body f i s), faith_miracle_check_body f i s ! nat i) =
       (\<lambda>(len, x). (len, if nat i < len
          then (if flt_lt (fst (lcg_float (word_of_int (i + 1) * 2654435761)))
                     (fmul (miracle_chance f ! nat i) (divine_favor f ! nat i)) then 1 else 0)
          else x)) (length s, s ! nat i)"
      by (rule faith_miracle_check_body_here)
  qed (use assms in simp_all)
  then show ?thesis using assms by (simp add: faith_miracle_check_def)
qed

text \<open>
  Claim C10. The value \<^verbatim>\<open>faith_miracle_check\<close> writes to \<^verbatim>\<open>miracle_out[i]\<close> is
  determined by \<open>i\<close>, \<^verbatim>\<open>miracle_chance[i]\<close> and \<^verbatim>\<open>divine_favor[i]\<close>: the roll comes
  from a seed rebuilt from \<open>i + 1\<close> on every call, no generator state is kept
  between calls, and the value of \<^verbatim>\<open>global_tick\<close> plays no part. Two calls, at any
  two ticks, on any two containers and output arrays that agree on
  \<^verbatim>\<open>miracle_chance[i]\<close> and \<^verbatim>\<open>divine_favor[i]\<close>, write the same \<^verbatim>\<open>miracle_out[i]\<close>.
\<close>

theorem faith_miracle_check_index_seeded:
  assumes "0 \<le> i" and "i < faith_count f" and "nat i < length out"
  shows "faith_miracle_check tick f out ! nat i =
           (if flt_lt (fst (lcg_float (word_of_int (i + 1) * 2654435761)))
                 (fmul (miracle_chance f ! nat i) (divine_favor f ! nat i)) then 1 else 0)
         \<and> (\<forall>tick' f' out'.
               i < faith_count f' \<and> nat i < length out'
               \<and> miracle_chance f' ! nat i = miracle_chance f ! nat i
               \<and> divine_favor f' ! nat i = divine_favor f ! nat i \<longrightarrow>
               faith_miracle_check tick' f' out' ! nat i = faith_miracle_check tick f out ! nat i)"
  using assms by (simp add: faith_miracle_check_at)

theorem faith_miracle_check_index_seeded_witness:
  "faith_miracle_check 0 shrine [7] ! 0 = 1
   \<and> faith_miracle_check 99 (shrine\<lparr>mana := [Fin 3]\<rparr>) [0] ! 0 = faith_miracle_check 0 shrine [7] ! 0"
proof -
  have roll: "fst (lcg_float (word_of_int (0 + 1) * 2654435761)) = Fin (4326823 / 16777216)"
    by (simp add: lcg_float_def lcg_next_def Let_def drop_bit_eq_div)
  have "(0::int) \<le> 0 \<and> 0 < faith_count shrine \<and> nat 0 < length [7::int]"
    by (simp add: shrine_def)
  then show ?thesis
    using faith_miracle_check_index_seeded [of 0 shrine "[7]" 0] roll
    by (simp add: shrine_def ovf_Fin FLT_MAX_def)
qed

end
